theory Spec2Isabelle
  imports Main
begin

section \<open>Configuration loading (config.go)\<close>

text \<open>
  The struct \<^verbatim>\<open>Config\<close> of config.go. All four fields are Go strings; the zero
  value of each is the empty string.
\<close>

record Config =
  APIToken :: string
  ZoneID :: string
  RecordName :: string
  RecordType :: string

definition zeroConfig :: Config where
  "zeroConfig = \<lparr>APIToken = [], ZoneID = [], RecordName = [], RecordType = []\<rparr>"

text \<open>
  What \<^verbatim>\<open>LoadConfig\<close> sees of the file system: the error of \<^verbatim>\<open>os.MkdirAll\<close>
  (\<open>None\<close> when it succeeds) and the result of \<^verbatim>\<open>os.ReadFile\<close> (\<open>Inl\<close> the
  error, \<open>Inr\<close> the bytes read).
\<close>

record config_fs =
  mkdirAll :: "string option"
  readFile :: "string + string"

text \<open>
  \<^verbatim>\<open>LoadConfig\<close>, lines 26-57. \<^verbatim>\<open>json.Unmarshal\<close> belongs to the Go library and is
  a parameter: \<open>unmarshal data\<close> is \<open>Inl\<close> the decoding error or \<open>Inr\<close> the struct
  that decoding into a zero \<^verbatim>\<open>Config\<close> leaves behind. The Go function returns a
  pointer, modelled as an option with \<open>None\<close> for nil; the second component is the
  list of warnings printed on the way.
\<close>

definition LoadConfig ::
  "(string \<Rightarrow> string + Config) \<Rightarrow> config_fs \<Rightarrow> Config option \<times> string list" where
  "LoadConfig unmarshal fs =
     (let warn1 = (case mkdirAll fs of Some e \<Rightarrow> [e] | None \<Rightarrow> []) in
      case readFile fs of
        Inl err \<Rightarrow> (Some (zeroConfig\<lparr>RecordType := ''A''\<rparr>), warn1)
      | Inr data \<Rightarrow>
          (case unmarshal data of
             Inl err \<Rightarrow> (Some (zeroConfig\<lparr>RecordType := ''A''\<rparr>), warn1 @ [err])
           | Inr config \<Rightarrow>
               (Some (if RecordType config = [] then config\<lparr>RecordType := ''A''\<rparr> else config),
                warn1)))"

section \<open>Address discovery (ipchecker.go)\<close>

subsection \<open>The Go library functions that \<^verbatim>\<open>isValidIPv4\<close> calls\<close>

text \<open>
  A Go string is a sequence of bytes, here a \<open>string\<close>. \<^verbatim>\<open>strings.TrimSpace\<close>
  removes leading and trailing white space as Unicode defines it: the six ASCII
  characters TAB, LF, VT, FF, CR and space, and the code points U+0085, U+00A0, U+1680,
  U+2000 to U+200A, U+2028, U+2029, U+202F, U+205F and U+3000, listed below by their
  UTF-8 encodings.
\<close>

definition spaceRunes :: "string list" where
  "spaceRunes =
     [[CHR 0x09], [CHR 0x0A], [CHR 0x0B], [CHR 0x0C], [CHR 0x0D], [CHR 0x20],
      [CHR 0xC2, CHR 0x85], [CHR 0xC2, CHR 0xA0], [CHR 0xE1, CHR 0x9A, CHR 0x80],
      [CHR 0xE2, CHR 0x80, CHR 0x80], [CHR 0xE2, CHR 0x80, CHR 0x81],
      [CHR 0xE2, CHR 0x80, CHR 0x82], [CHR 0xE2, CHR 0x80, CHR 0x83],
      [CHR 0xE2, CHR 0x80, CHR 0x84], [CHR 0xE2, CHR 0x80, CHR 0x85],
      [CHR 0xE2, CHR 0x80, CHR 0x86], [CHR 0xE2, CHR 0x80, CHR 0x87],
      [CHR 0xE2, CHR 0x80, CHR 0x88], [CHR 0xE2, CHR 0x80, CHR 0x89],
      [CHR 0xE2, CHR 0x80, CHR 0x8A], [CHR 0xE2, CHR 0x80, CHR 0xA8],
      [CHR 0xE2, CHR 0x80, CHR 0xA9], [CHR 0xE2, CHR 0x80, CHR 0xAF],
      [CHR 0xE2, CHR 0x81, CHR 0x9F], [CHR 0xE3, CHR 0x80, CHR 0x80]]"

fun leadingSpace :: "string list \<Rightarrow> string \<Rightarrow> nat option" where
  "leadingSpace [] s = None"
| "leadingSpace (r # rs) s = (if take (length r) s = r then Some (length r) else leadingSpace rs s)"

text \<open>
  \<open>trimN rs n s\<close> drops encodings of \<open>rs\<close> from the front of \<open>s\<close> until none
  matches. Every encoding is at least one byte long, so each drop shortens the string
  and a fuel of \<open>length s\<close> is never exhausted. The right end is trimmed on the
  reversed string with the reversed encodings.
\<close>

fun trimN :: "string list \<Rightarrow> nat \<Rightarrow> string \<Rightarrow> string" where
  "trimN rs 0 s = s"
| "trimN rs (Suc n) s =
     (case leadingSpace rs s of None \<Rightarrow> s | Some k \<Rightarrow> trimN rs n (drop k s))"

definition TrimSpace :: "string \<Rightarrow> string" where
  "TrimSpace s =
     (let l = trimN spaceRunes (length s) s
      in rev (trimN (map rev spaceRunes) (length l) (rev l)))"

text \<open>
  \<^verbatim>\<open>net.ParseIP\<close> (Go 1.22 and later: \<^verbatim>\<open>netip.ParseAddr\<close>, with an address that has a
  zone refused). The first of the bytes \<open>.\<close>, \<open>:\<close> and \<open>%\<close> in the string selects the
  parser. The result is the 16-byte form of the address, a list of 16 byte values.
\<close>

definition isDigit :: "char \<Rightarrow> bool" where
  "isDigit c = (48 \<le> (of_char c :: nat) \<and> (of_char c :: nat) \<le> 57)"

definition hexVal :: "char \<Rightarrow> nat option" where
  "hexVal c =
     (let n = (of_char c :: nat) in
      if 48 \<le> n \<and> n \<le> 57 then Some (n - 48)
      else if 97 \<le> n \<and> n \<le> 102 then Some (n - 97 + 10)
      else if 65 \<le> n \<and> n \<le> 70 then Some (n - 65 + 10)
      else None)"

text \<open>
  \<^verbatim>\<open>parseIPv4Fields\<close>: the loop over the bytes of the field string, with the value,
  the field position and the digit count of the octet being read. \<open>prev\<close> is the byte
  before the current one (\<open>None\<close> at index 0), so that \<^verbatim>\<open>i == 0\<close>,
  \<^verbatim>\<open>i == len(s)-1\<close> and \<^verbatim>\<open>s[i-1] == '.'\<close> read as \<open>prev = None\<close>, \<open>cs = []\<close> and
  \<open>prev = Some CHR ''.''\<close>.
\<close>

fun v4Fields :: "string \<Rightarrow> char option \<Rightarrow> nat \<Rightarrow> nat \<Rightarrow> nat \<Rightarrow> nat list \<Rightarrow> nat list option" where
  "v4Fields [] prev val pos digLen flds =
     (if pos < 3 then None else Some (flds[3 := val]))"
| "v4Fields (c # cs) prev val pos digLen flds =
     (if isDigit c then
        (if digLen = 1 \<and> val = 0 then None
         else let val' = val * 10 + (of_char c - 48) in
              if val' > 255 then None
              else v4Fields cs (Some c) val' pos (digLen + 1) flds)
      else if c = CHR ''.'' then
        (if prev = None \<or> cs = [] \<or> prev = Some CHR ''.'' then None
         else if pos = 3 then None
         else v4Fields cs (Some c) 0 (pos + 1) 0 (flds[pos := val]))
      else None)"

definition parseIPv4Fields :: "string \<Rightarrow> nat list option" where
  "parseIPv4Fields s = v4Fields s None 0 0 0 [0, 0, 0, 0]"

text \<open>\<^verbatim>\<open>parseIPv4\<close> followed by \<^verbatim>\<open>As16\<close>: the IPv4-mapped 16-byte form.\<close>

definition parseIPv4 :: "string \<Rightarrow> nat list option" where
  "parseIPv4 s =
     (case parseIPv4Fields s of
        None \<Rightarrow> None
      | Some fs \<Rightarrow> Some (replicate 10 0 @ [255, 255] @ fs))"

text \<open>
  The inner loop of \<^verbatim>\<open>parseIPv6\<close> that reads one group of hexadecimal digits: it
  returns the number of digits read and their value, and fails on a fifth digit.
\<close>

fun hexGroup :: "string \<Rightarrow> nat \<Rightarrow> nat \<Rightarrow> (nat \<times> nat) option" where
  "hexGroup [] off acc = Some (off, acc)"
| "hexGroup (c # cs) off acc =
     (case hexVal c of
        None \<Rightarrow> Some (off, acc)
      | Some d \<Rightarrow>
          (let acc' = acc * 16 + d in
           if off > 3 then None
           else if acc' > 65535 then None
           else hexGroup cs (off + 1) acc'))"

text \<open>
  The outer loop of \<^verbatim>\<open>parseIPv6\<close>, \<^verbatim>\<open>for i < 16\<close>: \<open>s\<close> is the text still to be read,
  \<open>i\<close> the number of bytes written, \<open>ellipsis\<close> the position of \<open>::\<close> (\<open>None\<close> for
  the source's -1). It yields the state at the loop's exit, or \<open>None\<close> where the
  source returns an error.
\<close>

function v6Loop ::
  "string \<Rightarrow> nat \<Rightarrow> nat option \<Rightarrow> nat list \<Rightarrow> (string \<times> nat \<times> nat option \<times> nat list) option" where
  "v6Loop s i ellipsis ip =
     (if i < 16 then
        (case hexGroup s 0 0 of
           None \<Rightarrow> None
         | Some (off, acc) \<Rightarrow>
             if off = 0 then None
             else if off < length s \<and> s ! off = CHR ''.'' then
               (if ellipsis = None \<and> i \<noteq> 12 then None
                else if i + 4 > 16 then None
                else (case parseIPv4Fields s of
                        None \<Rightarrow> None
                      | Some fs \<Rightarrow> Some ([], i + 4, ellipsis, take i ip @ fs @ drop (i + 4) ip)))
             else
               (let ip' = ip[i := acc div 256, i + 1 := acc mod 256];
                    s' = drop off s
                in if s' = [] then Some (s', i + 2, ellipsis, ip')
                   else if hd s' \<noteq> CHR '':'' then None
                   else if length s' = 1 then None
                   else if hd (tl s') = CHR '':'' then
                     (if ellipsis \<noteq> None then None
                      else if tl (tl s') = [] then Some ([], i + 2, Some (i + 2), ip')
                      else v6Loop (tl (tl s')) (i + 2) (Some (i + 2)) ip')
                   else v6Loop (tl s') (i + 2) ellipsis ip'))
      else Some (s, i, ellipsis, ip))"
  by pat_completeness auto
termination
  by (relation "measure (\<lambda>(s, i, ellipsis, ip). 16 - i)") simp_all

declare v6Loop.simps [simp del]

definition parseIPv6 :: "string \<Rightarrow> nat list option" where
  "parseIPv6 s0 =
     (if CHR ''%'' \<in> set s0 then None
      else
        (let lead = (length s0 \<ge> 2 \<and> s0 ! 0 = CHR '':'' \<and> s0 ! 1 = CHR '':'');
             s = (if lead then drop 2 s0 else s0);
             ellipsis = (if lead then Some 0 else None)
         in if lead \<and> s = [] then Some (replicate 16 0)
            else
              (case v6Loop s 0 ellipsis (replicate 16 0) of
                 None \<Rightarrow> None
               | Some (rest, i, ell, ip) \<Rightarrow>
                   if rest \<noteq> [] then None
                   else if i < 16 then
                     (case ell of
                        None \<Rightarrow> None
                      | Some e \<Rightarrow> Some (take e ip @ replicate (16 - i) 0 @ take (i - e) (drop e ip)))
                   else if ell \<noteq> None then None
                   else Some ip)))"

fun ParseAddr :: "string \<Rightarrow> string \<Rightarrow> nat list option" where
  "ParseAddr s [] = None"
| "ParseAddr s (c # cs) =
     (if c = CHR ''.'' then parseIPv4 s
      else if c = CHR '':'' then parseIPv6 s
      else if c = CHR ''%'' then None
      else ParseAddr s cs)"

definition ParseIP :: "string \<Rightarrow> nat list option" where
  "ParseIP s = ParseAddr s s"

text \<open>
  \<^verbatim>\<open>IP.To4\<close>: the last four bytes of a 16-byte address whose first ten bytes are zero
  and whose next two are 0xff, nil for any other 16-byte address.
\<close>

definition To4 :: "nat list \<Rightarrow> nat list option" where
  "To4 ip =
     (if length ip = 4 then Some ip
      else if length ip = 16 \<and> take 10 ip = replicate 10 0 \<and> ip ! 10 = 255 \<and> ip ! 11 = 255
      then Some (drop 12 ip)
      else None)"

subsection \<open>The checker\<close>

text \<open>\<^verbatim>\<open>isValidIPv4\<close>, lines 85-93.\<close>

definition isValidIPv4 :: "string \<Rightarrow> bool" where
  "isValidIPv4 ip =
     (case ParseIP (TrimSpace ip) of
        None \<Rightarrow> False
      | Some parsedIP \<Rightarrow> To4 parsedIP \<noteq> None)"

text \<open>
  Errors. Each constructor stands for one error value the source builds; the comment
  names the place. The source formats them into messages, which no caller inspects.
\<close>

datatype error =
    NetError string \<comment> \<open>an error of the HTTP client or of reading a body, passed on as it is\<close>
  | ServiceStatus int \<comment> \<open>getIPFromService: status code other than 200\<close>
  | EmptyBody \<comment> \<open>getIPFromService: empty body\<close>
  | InvalidIPFormat string \<comment> \<open>getIPFromService: body is not a valid address\<close>
  | AllServicesFailed "error option" \<comment> \<open>GetPublicIPWithService: every service failed; carries lastErr\<close>
  | RequestFailed error \<comment> \<open>client: makeRequest failed\<close>
  | APIStatus int string \<comment> \<open>client: status code other than 200, with the body\<close>
  | ParseFailed string \<comment> \<open>client: the response does not decode\<close>
  | APIError "(int \<times> string) list" \<comment> \<open>client: success is false; the codes and messages\<close>
  | LookupFailed error \<comment> \<open>listing the records failed\<close>
  | NoRecordFound string \<comment> \<open>UpdateDNSRecord: no record at the name\<close>
  | NoRecordOfType string \<comment> \<open>UpdateDNSRecord: no record of the type\<close>
  | ContentMismatch string string \<comment> \<open>UpdateDNSRecord: expected and echoed content differ\<close>

text \<open>
  What an HTTP GET on a discovery service yields: an error of the client, or a response
  with its status code and the result of \<^verbatim>\<open>io.ReadAll\<close> on its body.
\<close>

datatype svc_reply = GetError string | GetResponse int "string + string"

text \<open>
  What a request to the DNS provider yields: an error of \<^verbatim>\<open>makeRequest\<close>, or a
  response with its status code, its body as text, and the result of decoding the body
  as JSON into the struct the caller declares.
\<close>

datatype 'd reply = NoResponse string | Response int string "string + 'd"

text \<open>The structs of the client (part 000, lines 18-48 and the response structs).\<close>

record DNSRecord =
  ID :: string
  Type :: string
  Name :: string
  Content :: string
  TTL :: int
  Proxied :: bool

record 'r api_response =
  Success :: bool
  Result :: 'r
  Errors :: "(int \<times> string) list"

type_synonym DNSRecordResponse = "DNSRecord list api_response"

datatype UpdateResult =
  UpdateResult (resID: string) (resType: string) (resName: string) (resContent: string)

datatype DNSRecordUpdateRequest =
  DNSRecordUpdateRequest (updType: string) (updName: string) (updContent: string) (updTTL: int)

datatype DNSRecordCreateRequest =
  DNSRecordCreateRequest (crtType: string) (crtName: string) (crtContent: string) (crtTTL: int)

datatype payload =
    NoBody
  | UpdateBody DNSRecordUpdateRequest
  | CreateBody DNSRecordCreateRequest

text \<open>A request as \<^verbatim>\<open>makeRequest\<close> receives it: method, endpoint and body.\<close>

datatype request = Request (reqMethod: string) (endpoint: string) (body: payload)

text \<open>
  The outside world. Each reply may depend on everything asked before: the discovery
  services answer from the list of URLs queried so far and the URL queried now, the
  provider from the list of requests sent so far and the request sent now. The lists
  grow with every call, so any sequence of replies is some environment.
\<close>

record env =
  httpGet :: "string list \<Rightarrow> string \<Rightarrow> svc_reply"
  apiList :: "request list \<Rightarrow> request \<Rightarrow> DNSRecord list api_response reply"
  apiUpdate :: "request list \<Rightarrow> request \<Rightarrow> UpdateResult api_response reply"
  apiCreate :: "request list \<Rightarrow> request \<Rightarrow> DNSRecord api_response reply"

text \<open>
  The state: the package variable \<^verbatim>\<open>currentIP\<close> (part 001, line 21), and the two logs
  of what was asked of the outside, oldest first.
\<close>

record state =
  currentIP :: string
  queries :: "string list"
  requests :: "request list"

record IPChecker =
  services :: "string list"
  primaryService :: string

definition NewIPChecker :: IPChecker where
  "NewIPChecker =
     \<lparr>services = [''https://api.ipify.org'', ''https://ifconfig.me/ip'',
                  ''https://icanhazip.com'', ''https://api.ip.sb/ip''],
      primaryService = ''https://api.ipify.org''\<rparr>"

text \<open>
  \<^verbatim>\<open>getIPFromService\<close>, lines 95-122, in two parts: \<open>readIP\<close> is what the function
  does with the outcome of \<^verbatim>\<open>ic.client.Get(url)\<close> (lines 97-121), and
  \<open>getIPFromService\<close> asks the environment and logs the query.
\<close>

definition readIP :: "svc_reply \<Rightarrow> error + string" where
  "readIP rp =
     (case rp of
        GetError err \<Rightarrow> Inl (NetError err)
      | GetResponse code rd \<Rightarrow>
          if code \<noteq> 200 then Inl (ServiceStatus code)
          else
            (case rd of
               Inl err \<Rightarrow> Inl (NetError err)
             | Inr b \<Rightarrow>
                 (let ip = TrimSpace b in
                  if ip = [] then Inl EmptyBody
                  else if \<not> isValidIPv4 ip then Inl (InvalidIPFormat ip)
                  else Inr ip)))"

definition getIPFromService :: "env \<Rightarrow> string \<Rightarrow> state \<Rightarrow> (error + string) \<times> state" where
  "getIPFromService e url st =
     (readIP (httpGet e (queries st) url), st\<lparr>queries := queries st @ [url]\<rparr>)"

text \<open>
  The loop over the backup services of \<^verbatim>\<open>GetPublicIPWithService\<close>, lines 69-79, with
  \<^verbatim>\<open>lastErr\<close> as an argument: it is overwritten by the error of every attempt that is
  not accepted, nil included.
\<close>

fun tryServices ::
  "env \<Rightarrow> string \<Rightarrow> string list \<Rightarrow> error option \<Rightarrow> state \<Rightarrow> (error option + string \<times> string) \<times> state" where
  "tryServices e primary [] lastErr st = (Inl lastErr, st)"
| "tryServices e primary (service # rest) lastErr st =
     (if service = primary then tryServices e primary rest lastErr st
      else
        (case getIPFromService e service st of
           (Inr ip, st') \<Rightarrow>
             if ip \<noteq> [] \<and> isValidIPv4 ip then (Inr (ip, service), st')
             else tryServices e primary rest None st'
         | (Inl err, st') \<Rightarrow> tryServices e primary rest (Some err) st'))"

definition tryBackups :: "env \<Rightarrow> IPChecker \<Rightarrow> state \<Rightarrow> (error + string \<times> string) \<times> state" where
  "tryBackups e ic st =
     (case tryServices e (primaryService ic) (services ic) None st of
        (Inr r, st') \<Rightarrow> (Inr r, st')
      | (Inl lastErr, st') \<Rightarrow> (Inl (AllServicesFailed lastErr), st'))"

text \<open>\<^verbatim>\<open>GetPublicIPWithService\<close>, lines 61-82: the address and the service it came from.\<close>

definition GetPublicIPWithService ::
  "env \<Rightarrow> IPChecker \<Rightarrow> state \<Rightarrow> (error + string \<times> string) \<times> state" where
  "GetPublicIPWithService e ic st =
     (case getIPFromService e (primaryService ic) st of
        (Inr ip, st') \<Rightarrow>
          if ip \<noteq> [] \<and> isValidIPv4 ip then (Inr (ip, primaryService ic), st')
          else tryBackups e ic st'
      | (Inl err, st') \<Rightarrow> tryBackups e ic st')"

section \<open>The DNS provider client (part 000)\<close>

text \<open>
  Every client function sends its request through \<^verbatim>\<open>makeRequest\<close>; the model appends
  the request to the log and reads the reply from the environment.
  \<^verbatim>\<open>json.Marshal\<close> of a struct of strings and an int does not fail, so that branch
  has no counterpart.
\<close>

definition listRequest :: "string \<Rightarrow> string \<Rightarrow> request" where
  "listRequest zoneID recordName =
     Request ''GET'' (''/zones/'' @ zoneID @ ''/dns_records?name='' @ recordName) NoBody"

definition updateRequest :: "string \<Rightarrow> string \<Rightarrow> DNSRecordUpdateRequest \<Rightarrow> request" where
  "updateRequest zoneID recordID updateReq =
     Request ''PUT'' (''/zones/'' @ zoneID @ ''/dns_records/'' @ recordID) (UpdateBody updateReq)"

definition createRequest :: "string \<Rightarrow> DNSRecordCreateRequest \<Rightarrow> request" where
  "createRequest zoneID createReq =
     Request ''POST'' (''/zones/'' @ zoneID @ ''/dns_records'') (CreateBody createReq)"

definition sent :: "request \<Rightarrow> state \<Rightarrow> state" where
  "sent req st = st\<lparr>requests := requests st @ [req]\<rparr>"

text \<open>
  The part common to the three calls, after the response arrived: the status check,
  the decoding and the \<^verbatim>\<open>success\<close> check, in the source's order.
\<close>

definition checked :: "'r api_response reply \<Rightarrow> error + 'r" where
  "checked rp =
     (case rp of
        NoResponse err \<Rightarrow> Inl (RequestFailed (NetError err))
      | Response code txt dec \<Rightarrow>
          if code \<noteq> 200 then Inl (APIStatus code txt)
          else
            (case dec of
               Inl err \<Rightarrow> Inl (ParseFailed err)
             | Inr result \<Rightarrow>
                 if \<not> Success result then Inl (APIError (Errors result))
                 else Inr (Result result)))"

text \<open>\<^verbatim>\<open>ListDNSRecords\<close>, lines 82-109.\<close>

definition ListDNSRecords ::
  "env \<Rightarrow> string \<Rightarrow> string \<Rightarrow> state \<Rightarrow> (error + DNSRecord list) \<times> state" where
  "ListDNSRecords e zoneID recordName st =
     (let req = listRequest zoneID recordName
      in (checked (apiList e (requests st) req), sent req st))"

text \<open>\<^verbatim>\<open>GetAllDNSRecords\<close>, lines 217-231.\<close>

definition GetAllDNSRecords ::
  "env \<Rightarrow> string \<Rightarrow> string \<Rightarrow> string \<Rightarrow> state \<Rightarrow> (error + DNSRecord list) \<times> state" where
  "GetAllDNSRecords e zoneID recordName recordType st =
     (case ListDNSRecords e zoneID recordName st of
        (Inl err, st') \<Rightarrow> (Inl (LookupFailed err), st')
      | (Inr records, st') \<Rightarrow> (Inr (filter (\<lambda>r. Type r = recordType) records), st'))"

text \<open>
  \<^verbatim>\<open>UpdateDNSRecord\<close>, lines 111-198. The result is the returned error, \<open>None\<close> for
  nil. The target is the first listed record of the requested type.
\<close>

definition UpdateDNSRecord ::
  "env \<Rightarrow> string \<Rightarrow> string \<Rightarrow> string \<Rightarrow> string \<Rightarrow> state \<Rightarrow> error option \<times> state" where
  "UpdateDNSRecord e zoneID recordName recordType content st =
     (case ListDNSRecords e zoneID recordName st of
        (Inl err, st') \<Rightarrow> (Some (LookupFailed err), st')
      | (Inr records, st') \<Rightarrow>
          if records = [] then (Some (NoRecordFound recordName), st')
          else
            (case find (\<lambda>r. Type r = recordType) records of
               None \<Rightarrow> (Some (NoRecordOfType recordType), st')
             | Some targetRecord \<Rightarrow>
                 if Content targetRecord = content then (None, st')
                 else
                   (let req = updateRequest zoneID (ID targetRecord)
                                (DNSRecordUpdateRequest recordType recordName content
                                   (TTL targetRecord))
                    in case checked (apiUpdate e (requests st') req) of
                         Inl err \<Rightarrow> (Some err, sent req st')
                       | Inr result \<Rightarrow>
                           if resContent result \<noteq> content
                           then (Some (ContentMismatch content (resContent result)), sent req st')
                           else (None, sent req st'))))"

text \<open>\<^verbatim>\<open>CreateDNSRecord\<close>, lines 256-304.\<close>

definition CreateDNSRecord ::
  "env \<Rightarrow> string \<Rightarrow> string \<Rightarrow> string \<Rightarrow> string \<Rightarrow> int \<Rightarrow> state \<Rightarrow> (error + DNSRecord) \<times> state" where
  "CreateDNSRecord e zoneID recordName recordType content ttl st =
     (let req = createRequest zoneID (DNSRecordCreateRequest recordType recordName content ttl)
      in (checked (apiCreate e (requests st) req), sent req st))"

definition errorOf :: "error + 'a \<Rightarrow> error option" where
  "errorOf r = (case r of Inl err \<Rightarrow> Some err | Inr _ \<Rightarrow> None)"

text \<open>\<^verbatim>\<open>UpdateOrCreateDNSRecord\<close>, lines 309-339.\<close>

definition UpdateOrCreateDNSRecord ::
  "env \<Rightarrow> string \<Rightarrow> string \<Rightarrow> string \<Rightarrow> string \<Rightarrow> int \<Rightarrow> string \<Rightarrow> state \<Rightarrow> error option \<times> state" where
  "UpdateOrCreateDNSRecord e zoneID recordName recordType content ttl oldIP st =
     (let create = (\<lambda>s. case CreateDNSRecord e zoneID recordName recordType content ttl s of
                          (r, s') \<Rightarrow> (errorOf r, s'))
      in case GetAllDNSRecords e zoneID recordName recordType st of
           (Inl err, st') \<Rightarrow> create st'
         | (Inr records, st') \<Rightarrow>
             if records = [] then create st'
             else if content \<in> Content ` set records then (None, st')
             else if oldIP \<noteq> [] \<and> oldIP \<in> Content ` set records
             then UpdateDNSRecord e zoneID recordName recordType content st'
             else create st')"

section \<open>The reconciliation cycle (part 001)\<close>

definition maxRetries :: nat where
  "maxRetries = 3"

text \<open>
  The first loop of \<^verbatim>\<open>checkAndUpdate\<close>, lines 350-359: up to three calls of
  \<^verbatim>\<open>GetPublicIPWithService\<close>, stopping at the first that succeeds. \<open>prev\<close> holds the
  variables \<^verbatim>\<open>ip\<close>, \<^verbatim>\<open>serviceName\<close> and \<^verbatim>\<open>err\<close> as the previous iteration left them.
  Logging and \<^verbatim>\<open>time.Sleep\<close> change neither the control flow nor any state a claim
  mentions, and are left out here and below.
\<close>

function getIPLoop ::
  "env \<Rightarrow> IPChecker \<Rightarrow> nat \<Rightarrow> error + string \<times> string \<Rightarrow> state \<Rightarrow> (error + string \<times> string) \<times> state" where
  "getIPLoop e ic i prev st =
     (if i < maxRetries then
        (case GetPublicIPWithService e ic st of
           (Inr r, st') \<Rightarrow> (Inr r, st')
         | (Inl err, st') \<Rightarrow> getIPLoop e ic (i + 1) (Inl err) st')
      else (prev, st))"
  by pat_completeness auto
termination
  by (relation "measure (\<lambda>(e, ic, i, prev, st). maxRetries - i)") simp_all

declare getIPLoop.simps [simp del]

text \<open>
  The second loop, lines 429-442: up to three calls of \<^verbatim>\<open>UpdateOrCreateDNSRecord\<close>,
  stopping at the first that returns nil. The result is \<^verbatim>\<open>updateSuccess\<close> and
  \<^verbatim>\<open>lastErr\<close>.
\<close>

function updateLoop ::
  "env \<Rightarrow> Config \<Rightarrow> string \<Rightarrow> int \<Rightarrow> string \<Rightarrow> nat \<Rightarrow> error option \<Rightarrow> state \<Rightarrow> (bool \<times> error option) \<times> state" where
  "updateLoop e config ip defaultTTL oldIP i lastErr st =
     (if i < maxRetries then
        (case UpdateOrCreateDNSRecord e (ZoneID config) (RecordName config) (RecordType config)
                ip defaultTTL oldIP st of
           (None, st') \<Rightarrow> ((True, None), st')
         | (Some err, st') \<Rightarrow> updateLoop e config ip defaultTTL oldIP (i + 1) (Some err) st')
      else ((False, lastErr), st))"
  by pat_completeness auto
termination
  by (relation "measure (\<lambda>(e, config, ip, defaultTTL, oldIP, i, lastErr, st). maxRetries - i)") simp_all

declare updateLoop.simps [simp del]

text \<open>
  Lines 418-471, from the mutation on: the default TTL, the retried mutation, the
  verifying list (whose outcome is only logged) and the assignment to \<^verbatim>\<open>currentIP\<close>.
\<close>

definition applyChange :: "env \<Rightarrow> Config \<Rightarrow> string \<Rightarrow> DNSRecord list \<Rightarrow> state \<Rightarrow> state" where
  "applyChange e config ip allRecords st =
     (let defaultTTL = (if length allRecords > 0 then TTL (allRecords ! 0) else 3600)
      in case updateLoop e config ip defaultTTL (currentIP st) 0 None st of
           ((False, lastErr), st') \<Rightarrow> st'
         | ((True, lastErr), st') \<Rightarrow>
             (case GetAllDNSRecords e (ZoneID config) (RecordName config) (RecordType config) st' of
                (verify, st'') \<Rightarrow> st''\<lparr>currentIP := ip\<rparr>))"

text \<open>
  \<^verbatim>\<open>checkAndUpdate\<close>, lines 342-471. The package variables \<^verbatim>\<open>config\<close> and
  \<^verbatim>\<open>ipChecker\<close> are arguments; \<^verbatim>\<open>currentIP\<close> is in the state.
\<close>

definition checkAndUpdate :: "env \<Rightarrow> Config \<Rightarrow> IPChecker \<Rightarrow> state \<Rightarrow> state" where
  "checkAndUpdate e config ic st =
     (case getIPLoop e ic 0 (Inr ([], [])) st of
        (Inl err, st1) \<Rightarrow> st1
      | (Inr (ip, serviceName), st1) \<Rightarrow>
          if ip = currentIP st1 then st1
          else
            (case GetPublicIPWithService e ic st1 of
               (Inl err, st2) \<Rightarrow> st2
             | (Inr (confirmIP, confirmService), st2) \<Rightarrow>
                 if confirmIP \<noteq> ip then st2
                 else
                   (case GetAllDNSRecords e (ZoneID config) (RecordName config)
                           (RecordType config) st2 of
                      (Inl err, st3) \<Rightarrow> applyChange e config ip [] st3
                    | (Inr allRecords, st3) \<Rightarrow>
                        if ip \<in> Content ` set allRecords then st3\<lparr>currentIP := ip\<rparr>
                        else applyChange e config ip allRecords st3)))"

section \<open>Auxiliary definitions\<close>

text \<open>
  \<open>onlyCreates c new\<close>: every POST among the requests \<open>new\<close> is the request \<open>c\<close>.
\<close>

definition onlyCreates :: "request \<Rightarrow> request list \<Rightarrow> bool" where
  "onlyCreates c new = (\<forall>r \<in> set new. reqMethod r = ''POST'' \<longrightarrow> r = c)"

text \<open>
  Sample surroundings for running the model on concrete inputs: a configuration, an
  initial state, discovery services that answer with status 200 and a given body, and
  a provider that lists given records, and acknowledges every update and create by
  echoing the content it was sent.
\<close>

definition sampleConfig :: Config where
  "sampleConfig =
     \<lparr>APIToken = ''token'', ZoneID = ''zone'', RecordName = ''host.example.com'',
      RecordType = ''A''\<rparr>"

definition startState :: "string \<Rightarrow> state" where
  "startState ip = \<lparr>currentIP = ip, queries = [], requests = []\<rparr>"

definition okGet :: "string \<Rightarrow> svc_reply" where
  "okGet b = GetResponse 200 (Inr b)"

definition okList :: "DNSRecord list \<Rightarrow> DNSRecord list api_response reply" where
  "okList rs = Response 200 [] (Inr \<lparr>Success = True, Result = rs, Errors = []\<rparr>)"

definition echoUpdate :: "request \<Rightarrow> UpdateResult api_response reply" where
  "echoUpdate r =
     (case body r of
        UpdateBody u \<Rightarrow>
          Response 200 []
            (Inr \<lparr>Success = True,
                  Result = UpdateResult [] (updType u) (updName u) (updContent u),
                  Errors = []\<rparr>)
      | _ \<Rightarrow> Response 400 [] (Inl []))"

definition echoCreate :: "request \<Rightarrow> DNSRecord api_response reply" where
  "echoCreate r =
     (case body r of
        CreateBody c \<Rightarrow>
          Response 200 []
            (Inr \<lparr>Success = True,
                  Result = \<lparr>ID = ''new'', Type = crtType c, Name = crtName c,
                            Content = crtContent c, TTL = crtTTL c, Proxied = False\<rparr>,
                  Errors = []\<rparr>)
      | _ \<Rightarrow> Response 400 [] (Inl []))"

definition sampleEnv :: "(string list \<Rightarrow> string) \<Rightarrow> (request list \<Rightarrow> DNSRecord list) \<Rightarrow> env" where
  "sampleEnv address records =
     \<lparr>httpGet = (\<lambda>log url. okGet (address log)),
      apiList = (\<lambda>h r. okList (records h)),
      apiUpdate = (\<lambda>h r. echoUpdate r),
      apiCreate = (\<lambda>h r. echoCreate r)\<rparr>"

definition arecord :: "string \<Rightarrow> string \<Rightarrow> int \<Rightarrow> DNSRecord" where
  "arecord i c t =
     \<lparr>ID = i, Type = ''A'', Name = ''host.example.com'', Content = c, TTL = t, Proxied = False\<rparr>"

text \<open>
  A provider with a memory, for the same purpose: \<open>storeAfter rs h\<close> is the record
  set that starts as \<open>rs\<close> and has undergone the creates and updates among the
  requests \<open>h\<close> (an update changes the record whose id ends the endpoint).
\<close>

definition applyRequest :: "DNSRecord list \<Rightarrow> request \<Rightarrow> DNSRecord list" where
  "applyRequest rs r =
     (case body r of
        NoBody \<Rightarrow> rs
      | CreateBody c \<Rightarrow>
          rs @ [\<lparr>ID = ''new'', Type = crtType c, Name = crtName c, Content = crtContent c,
                 TTL = crtTTL c, Proxied = False\<rparr>]
      | UpdateBody u \<Rightarrow>
          map (\<lambda>x. if endpoint r = ''/zones/zone/dns_records/'' @ ID x
                    then x\<lparr>Type := updType u, Name := updName u, Content := updContent u,
                           TTL := updTTL u\<rparr>
                    else x) rs)"

definition storeAfter :: "DNSRecord list \<Rightarrow> request list \<Rightarrow> DNSRecord list" where
  "storeAfter rs h = foldl applyRequest rs h"

text \<open>
  A provider whose very first answer to a listing is a server error and which lists
  the given records from then on.
\<close>

definition firstListFails ::
  "DNSRecord list \<Rightarrow> request list \<Rightarrow> request \<Rightarrow> DNSRecord list api_response reply" where
  "firstListFails rs h r = (if h = [] then Response 500 [] (Inl []) else okList rs)"

section \<open>Theorems\<close>

subsection \<open>Discovery sends nothing to the provider\<close>

text \<open>
  Asking the discovery services adds to the query log only: the provider's request log
  and \<open>currentIP\<close> stay as they are.
\<close>

lemma getIPFromService_frame:
  "requests (snd (getIPFromService e url st)) = requests st"
  "currentIP (snd (getIPFromService e url st)) = currentIP st"
  by (simp_all add: getIPFromService_def)

lemma tryServices_frame:
  "requests (snd (tryServices e p svcs le st)) = requests st \<and>
   currentIP (snd (tryServices e p svcs le st)) = currentIP st"
proof (induction svcs arbitrary: le st)
  case Nil
  show ?case by simp
next
  case (Cons s svcs)
  note f = getIPFromService_frame[of e s st]
  show ?case
  proof (cases "getIPFromService e s st")
    case (Pair a st1)
    with f have "requests st1 = requests st" "currentIP st1 = currentIP st" by simp_all
    with Pair Cons.IH show ?thesis
      by (simp split: sum.split)
  qed
qed

lemma tryBackups_frame:
  "requests (snd (tryBackups e ic st)) = requests st \<and>
   currentIP (snd (tryBackups e ic st)) = currentIP st"
proof (cases "tryServices e (primaryService ic) (services ic) None st")
  case (Pair r st')
  with tryServices_frame[of e "primaryService ic" "services ic" None st]
  have "requests st' = requests st" "currentIP st' = currentIP st" by simp_all
  with Pair show ?thesis by (simp add: tryBackups_def split: sum.split)
qed

lemma GetPublicIPWithService_frame:
  "requests (snd (GetPublicIPWithService e ic st)) = requests st \<and>
   currentIP (snd (GetPublicIPWithService e ic st)) = currentIP st"
proof (cases "getIPFromService e (primaryService ic) st")
  case (Pair r st')
  with getIPFromService_frame[of e "primaryService ic" st]
  have "requests st' = requests st" "currentIP st' = currentIP st" by simp_all
  with Pair tryBackups_frame[of e ic st'] show ?thesis
    by (simp add: GetPublicIPWithService_def split: sum.split)
qed

lemma getIPLoop_frame:
  "requests (snd (getIPLoop e ic i prev st)) = requests st \<and>
   currentIP (snd (getIPLoop e ic i prev st)) = currentIP st"
proof (induction e ic i prev st rule: getIPLoop.induct)
  case (1 e ic i prev st)
  show ?case
  proof (cases "i < maxRetries")
    case False
    then show ?thesis by (simp add: getIPLoop.simps)
  next
    case True
    obtain a st1 where g: "GetPublicIPWithService e ic st = (a, st1)" by (cases "GetPublicIPWithService e ic st")
    have f: "requests st1 = requests st" "currentIP st1 = currentIP st"
      using GetPublicIPWithService_frame[of e ic st] g by simp_all
    show ?thesis
    proof (cases a)
      case (Inl err)
      from "1.IH"[OF True g[symmetric] Inl] f True g Inl show ?thesis
        by (simp add: getIPLoop.simps[of e ic i])
    next
      case (Inr x)
      with True g f show ?thesis by (simp add: getIPLoop.simps[of e ic i])
    qed
  qed
qed

lemma getIPLoop_frame':
  "getIPLoop e ic i prev st = (r, st1) \<Longrightarrow> requests st1 = requests st \<and> currentIP st1 = currentIP st"
  using getIPLoop_frame[of e ic i prev st] by simp

lemma GetPublicIPWithService_frame':
  "GetPublicIPWithService e ic st = (r, st1) \<Longrightarrow> requests st1 = requests st \<and> currentIP st1 = currentIP st"
  using GetPublicIPWithService_frame[of e ic st] by simp

subsection \<open>What the client adds to the request log\<close>

lemma ListDNSRecords_state:
  "snd (ListDNSRecords e z n st) = sent (listRequest z n) st"
  by (simp add: ListDNSRecords_def Let_def)

lemma GetAllDNSRecords_state:
  "snd (GetAllDNSRecords e z n t st) = sent (listRequest z n) st"
  using ListDNSRecords_state[of e z n st]
  by (cases "ListDNSRecords e z n st") (simp add: GetAllDNSRecords_def split: sum.split)

lemma CreateDNSRecord_state:
  "snd (CreateDNSRecord e z n t c ttl st) =
     sent (createRequest z (DNSRecordCreateRequest t n c ttl)) st"
  by (simp add: CreateDNSRecord_def Let_def)

lemma sent_simps [simp]:
  "requests (sent r st) = requests st @ [r]"
  "currentIP (sent r st) = currentIP st"
  "queries (sent r st) = queries st"
  by (simp_all add: sent_def)

lemma reqMethod_simps [simp]:
  "reqMethod (listRequest z n) = ''GET''"
  "reqMethod (updateRequest z i u) = ''PUT''"
  "reqMethod (createRequest z c) = ''POST''"
  by (simp_all add: listRequest_def updateRequest_def createRequest_def)

lemma onlyCreates_simps [simp]:
  "onlyCreates c []"
  "onlyCreates c (xs @ ys) = (onlyCreates c xs \<and> onlyCreates c ys)"
  "onlyCreates c (r # rs) = ((reqMethod r = ''POST'' \<longrightarrow> r = c) \<and> onlyCreates c rs)"
  by (auto simp: onlyCreates_def)

lemma UpdateDNSRecord_adds:
  "\<exists>new. requests (snd (UpdateDNSRecord e z n t c st)) = requests st @ new \<and>
         onlyCreates cr new \<and>
         currentIP (snd (UpdateDNSRecord e z n t c st)) = currentIP st"
proof (cases "ListDNSRecords e z n st")
  case (Pair r st')
  with ListDNSRecords_state[of e z n st] have st': "st' = sent (listRequest z n) st" by simp
  show ?thesis
    using Pair st'
    by (auto simp: UpdateDNSRecord_def Let_def split: sum.split option.split)
qed

lemma UpdateOrCreate_adds:
  "\<exists>new. requests (snd (UpdateOrCreateDNSRecord e z n t c ttl old st)) = requests st @ new \<and>
         onlyCreates (createRequest z (DNSRecordCreateRequest t n c ttl)) new \<and>
         currentIP (snd (UpdateOrCreateDNSRecord e z n t c ttl old st)) = currentIP st"
proof (cases "GetAllDNSRecords e z n t st")
  case (Pair r st')
  with GetAllDNSRecords_state[of e z n t st] have st': "st' = sent (listRequest z n) st" by simp
  let ?cr = "createRequest z (DNSRecordCreateRequest t n c ttl)"
  have cre: "snd (CreateDNSRecord e z n t c ttl st') = sent ?cr st'"
    by (rule CreateDNSRecord_state)
  obtain new where u: "requests (snd (UpdateDNSRecord e z n t c st')) = requests st' @ new"
      "onlyCreates ?cr new" "currentIP (snd (UpdateDNSRecord e z n t c st')) = currentIP st'"
    using UpdateDNSRecord_adds[of e z n t c st' ?cr] by blast
  show ?thesis
  proof (cases "CreateDNSRecord e z n t c ttl st'")
    case cp: (Pair cres cst)
    with cre have cst: "cst = sent ?cr st'" by simp
    show ?thesis
      using Pair st' cp cst u
      by (auto simp: UpdateOrCreateDNSRecord_def Let_def split: sum.split)
  qed
qed

lemma updateLoop_adds:
  "\<exists>new. requests (snd (updateLoop e config ip ttl old i le st)) = requests st @ new \<and>
         onlyCreates (createRequest (ZoneID config)
            (DNSRecordCreateRequest (RecordType config) (RecordName config) ip ttl)) new \<and>
         currentIP (snd (updateLoop e config ip ttl old i le st)) = currentIP st"
proof (induction e config ip ttl old i le st rule: updateLoop.induct)
  case (1 e config ip ttl old i le st)
  let ?cr = "createRequest (ZoneID config)
            (DNSRecordCreateRequest (RecordType config) (RecordName config) ip ttl)"
  show ?case
  proof (cases "i < maxRetries")
    case False
    then show ?thesis by (simp add: updateLoop.simps)
  next
    case True
    obtain r st1 where g: "UpdateOrCreateDNSRecord e (ZoneID config) (RecordName config)
        (RecordType config) ip ttl old st = (r, st1)"
      by (cases "UpdateOrCreateDNSRecord e (ZoneID config) (RecordName config)
        (RecordType config) ip ttl old st")
    obtain new1 where n1: "requests st1 = requests st @ new1" "onlyCreates ?cr new1"
        "currentIP st1 = currentIP st"
      using UpdateOrCreate_adds[of e "ZoneID config" "RecordName config" "RecordType config" ip ttl old st] g
      by auto
    show ?thesis
    proof (cases r)
      case None
      with True g n1 show ?thesis by (simp add: updateLoop.simps[of e config ip ttl old i])
    next
      case (Some err)
      from "1.IH"[OF True g[symmetric] Some] obtain new2 where
        n2: "requests (snd (updateLoop e config ip ttl old (i + 1) (Some err) st1)) = requests st1 @ new2"
          "onlyCreates ?cr new2"
          "currentIP (snd (updateLoop e config ip ttl old (i + 1) (Some err) st1)) = currentIP st1"
        by blast
      with True g n1 Some show ?thesis
        by (simp add: updateLoop.simps[of e config ip ttl old i])
    qed
  qed
qed

lemma applyChange_adds:
  "\<exists>new. requests (applyChange e config ip allRecords st) = requests st @ new \<and>
         onlyCreates (createRequest (ZoneID config)
            (DNSRecordCreateRequest (RecordType config) (RecordName config) ip
               (if length allRecords > 0 then TTL (allRecords ! 0) else 3600))) new"
proof -
  let ?ttl = "if length allRecords > 0 then TTL (allRecords ! 0) else 3600"
  let ?cr = "createRequest (ZoneID config)
            (DNSRecordCreateRequest (RecordType config) (RecordName config) ip ?ttl)"
  obtain ok le st1 where u: "updateLoop e config ip ?ttl (currentIP st) 0 None st = ((ok, le), st1)"
    by (metis prod.exhaust)
  obtain new1 where n1: "requests st1 = requests st @ new1" "onlyCreates ?cr new1"
    using updateLoop_adds[of e config ip ?ttl "currentIP st" 0 None st] u by auto
  have v: "snd (GetAllDNSRecords e (ZoneID config) (RecordName config) (RecordType config) st1)
      = sent (listRequest (ZoneID config) (RecordName config)) st1"
    by (rule GetAllDNSRecords_state)
  show ?thesis
  proof (cases "GetAllDNSRecords e (ZoneID config) (RecordName config) (RecordType config) st1")
    case (Pair vr st2)
    with v have "st2 = sent (listRequest (ZoneID config) (RecordName config)) st1" by simp
    with u n1 Pair show ?thesis
      by (cases ok) (simp_all add: applyChange_def Let_def)
  qed
qed

subsection \<open>The create of the last branch\<close>

text \<open>
  When the listing inside \<open>UpdateOrCreateDNSRecord\<close> fails, or shows neither the new
  content nor a non-empty old one, the call is the create call. The first attempt of
  \<open>updateLoop\<close> is always made, and \<open>applyChange\<close> only adds to what the loop sent.
\<close>

lemma UpdateOrCreate_fallback:
  assumes "GetAllDNSRecords e z n t st = (relisted, st')"
    and "\<forall>rs. relisted = Inr rs \<longrightarrow>
           c \<notin> Content ` set rs \<and> (old = [] \<or> old \<notin> Content ` set rs)"
  shows "UpdateOrCreateDNSRecord e z n t c ttl old st =
           (errorOf (fst (CreateDNSRecord e z n t c ttl st')),
            sent (createRequest z (DNSRecordCreateRequest t n c ttl)) st')"
proof (cases "CreateDNSRecord e z n t c ttl st'")
  case (Pair cres cst)
  with CreateDNSRecord_state[of e z n t c ttl st']
  have cst: "cst = sent (createRequest z (DNSRecordCreateRequest t n c ttl)) st'" by simp
  show ?thesis
  proof (cases relisted)
    case (Inl err)
    with assms(1) Pair cst show ?thesis by (simp add: UpdateOrCreateDNSRecord_def)
  next
    case (Inr rs)
    with assms(2) have "c \<notin> Content ` set rs" "old = [] \<or> old \<notin> Content ` set rs" by auto
    with Inr assms(1) Pair cst show ?thesis by (auto simp: UpdateOrCreateDNSRecord_def)
  qed
qed

lemma updateLoop_extends_first:
  "\<exists>more. requests (snd (updateLoop e config ip ttl old 0 le st)) =
      requests (snd (UpdateOrCreateDNSRecord e (ZoneID config) (RecordName config)
        (RecordType config) ip ttl old st)) @ more"
proof (cases "UpdateOrCreateDNSRecord e (ZoneID config) (RecordName config)
        (RecordType config) ip ttl old st")
  case (Pair r st1)
  show ?thesis
  proof (cases r)
    case None
    with Pair show ?thesis by (simp add: updateLoop.simps[of e config ip ttl old 0] maxRetries_def)
  next
    case (Some err)
    obtain new where "requests (snd (updateLoop e config ip ttl old (0 + 1) (Some err) st1)) =
        requests st1 @ new"
      using updateLoop_adds[of e config ip ttl old "0 + 1" "Some err" st1] by blast
    with Pair Some show ?thesis
      by (simp add: updateLoop.simps[of e config ip ttl old 0] maxRetries_def)
  qed
qed

lemma applyChange_extends_loop:
  "\<exists>more. requests (applyChange e config ip allRecords st) =
      requests (snd (updateLoop e config ip
        (if length allRecords > 0 then TTL (allRecords ! 0) else 3600) (currentIP st) 0 None st)) @ more"
proof -
  let ?ttl = "if length allRecords > 0 then TTL (allRecords ! 0) else 3600"
  obtain ok le st1 where u: "updateLoop e config ip ?ttl (currentIP st) 0 None st = ((ok, le), st1)"
    by (metis prod.exhaust)
  have v: "snd (GetAllDNSRecords e (ZoneID config) (RecordName config) (RecordType config) st1)
      = sent (listRequest (ZoneID config) (RecordName config)) st1"
    by (rule GetAllDNSRecords_state)
  show ?thesis
  proof (cases "GetAllDNSRecords e (ZoneID config) (RecordName config) (RecordType config) st1")
    case (Pair vr st2)
    with v have "st2 = sent (listRequest (ZoneID config) (RecordName config)) st1" by simp
    with u Pair show ?thesis
      by (cases ok) (simp_all add: applyChange_def Let_def)
  qed
qed

subsection \<open>The cycle after a confirmed change\<close>

lemma cycle_confirmed:
  assumes "getIPLoop e ic 0 (Inr ([], [])) st = (Inr (ip, svc), st1)"
    and "ip \<noteq> currentIP st"
    and "GetPublicIPWithService e ic st1 = (Inr (ip, confirmService), st2)"
  shows "checkAndUpdate e config ic st =
           (case GetAllDNSRecords e (ZoneID config) (RecordName config) (RecordType config) st2 of
              (Inl err, st3) \<Rightarrow> applyChange e config ip [] st3
            | (Inr allRecords, st3) \<Rightarrow>
                if ip \<in> Content ` set allRecords then st3\<lparr>currentIP := ip\<rparr>
                else applyChange e config ip allRecords st3)"
    and "requests st2 = requests st" and "currentIP st2 = currentIP st"
  using assms getIPLoop_frame'[OF assms(1)] GetPublicIPWithService_frame'[OF assms(3)]
  by (simp_all add: checkAndUpdate_def)

subsection \<open>The order of the discovery services\<close>

lemma readIP_Inr: "readIP rp = Inr ip \<Longrightarrow> ip \<noteq> [] \<and> isValidIPv4 ip"
  by (auto simp: readIP_def Let_def split: svc_reply.splits sum.splits if_splits)

lemma tryServices_filter:
  "tryServices e p svcs le st = tryServices e p (filter (\<lambda>s. s \<noteq> p) svcs) le st"
  by (induction svcs arbitrary: le st) (auto split: prod.splits sum.splits)

lemma tryServices_success:
  assumes "p \<notin> set rest" and "k < length rest"
    and "\<forall>j<k. \<exists>er. readIP (httpGet e (queries st @ take j rest) (rest ! j)) = Inl er"
    and "readIP (httpGet e (queries st @ take k rest) (rest ! k)) = Inr ip"
  shows "tryServices e p rest le st =
           (Inr (ip, rest ! k), st\<lparr>queries := queries st @ take (Suc k) rest\<rparr>)"
  using assms
proof (induction rest arbitrary: k st le)
  case Nil
  then show ?case by simp
next
  case (Cons x xs)
  from Cons.prems(1) have xp: "x \<noteq> p" and pxs: "p \<notin> set xs" by auto
  show ?case
  proof (cases k)
    case 0
    with Cons.prems(4) have r: "readIP (httpGet e (queries st) x) = Inr ip" by simp
    from readIP_Inr[OF r] r xp 0 show ?thesis
      by (simp add: getIPFromService_def)
  next
    case (Suc k')
    let ?st = "st\<lparr>queries := queries st @ [x]\<rparr>"
    from Cons.prems(3) Suc obtain er where er: "readIP (httpGet e (queries st) x) = Inl er"
      by force
    have a: "k' < length xs" using Cons.prems(2) Suc by simp
    have b: "\<forall>j<k'. \<exists>er. readIP (httpGet e (queries ?st @ take j xs) (xs ! j)) = Inl er"
    proof (intro allI impI)
      fix j assume "j < k'"
      then have "Suc j < k" using Suc by simp
      with Cons.prems(3) show "\<exists>er. readIP (httpGet e (queries ?st @ take j xs) (xs ! j)) = Inl er"
        by force
    qed
    have c: "readIP (httpGet e (queries ?st @ take k' xs) (xs ! k')) = Inr ip"
      using Cons.prems(4) Suc by simp
    from Cons.IH[OF pxs a b c, of "Some er"] er xp Suc show ?thesis
      by (simp add: getIPFromService_def)
  qed
qed

lemma tryServices_fail:
  assumes "p \<notin> set rest"
    and "\<forall>j<length rest. \<exists>er. readIP (httpGet e (queries st @ take j rest) (rest ! j)) = Inl er"
  shows "tryServices e p rest le st =
           (Inl (if rest = [] then le
                 else errorOf (readIP (httpGet e (queries st @ butlast rest) (last rest)))),
            st\<lparr>queries := queries st @ rest\<rparr>)"
  using assms
proof (induction rest arbitrary: st le)
  case Nil
  then show ?case by simp
next
  case (Cons x xs)
  from Cons.prems(1) have xp: "x \<noteq> p" and pxs: "p \<notin> set xs" by auto
  let ?st = "st\<lparr>queries := queries st @ [x]\<rparr>"
  from Cons.prems(2) obtain er where er: "readIP (httpGet e (queries st) x) = Inl er"
    by force
  have b: "\<forall>j<length xs. \<exists>er. readIP (httpGet e (queries ?st @ take j xs) (xs ! j)) = Inl er"
  proof (intro allI impI)
    fix j assume "j < length xs"
    then have "Suc j < length (x # xs)" by simp
    with Cons.prems(2) show "\<exists>er. readIP (httpGet e (queries ?st @ take j xs) (xs ! j)) = Inl er"
      by force
  qed
  from Cons.IH[OF pxs b, of "Some er"] er xp show ?case
    by (simp add: getIPFromService_def errorOf_def)
qed

subsection \<open>Runs on the sample surroundings\<close>

lemma replicate_10: "replicate 10 (0::nat) = [0,0,0,0,0,0,0,0,0,0]"
  by (simp add: numeral_eq_Suc)

lemma replicate_16: "replicate 16 (0::nat) = [0,0,0,0,0,0,0,0,0,0,0,0,0,0,0,0]"
  by (simp add: numeral_eq_Suc)

lemmas ip_eval =
  TrimSpace_def spaceRunes_def ParseIP_def parseIPv4_def parseIPv6_def v6Loop.simps
  hexVal_def Let_def parseIPv4Fields_def isDigit_def replicate_10 replicate_16
  isValidIPv4_def To4_def

lemma readIP_1234: "readIP (okGet ''1.2.3.4'') = Inr ''1.2.3.4''"
  by (simp add: readIP_def okGet_def ip_eval)

lemma readIP_5678: "readIP (okGet ''5.6.7.8'') = Inr ''5.6.7.8''"
  by (simp add: readIP_def okGet_def ip_eval)

lemma readIP_mapped: "readIP (okGet ''::ffff:1.2.3.4'') = Inr ''::ffff:1.2.3.4''"
  by (simp add: readIP_def okGet_def ip_eval)

lemma GetPublic_primary:
  "readIP (httpGet e (queries st) (primaryService ic)) = Inr ip \<Longrightarrow>
   GetPublicIPWithService e ic st =
     (Inr (ip, primaryService ic), st\<lparr>queries := queries st @ [primaryService ic]\<rparr>)"
  using readIP_Inr[of "httpGet e (queries st) (primaryService ic)" ip]
  by (simp add: GetPublicIPWithService_def getIPFromService_def)

lemma getIPLoop_first:
  "GetPublicIPWithService e ic st = (Inr r, st') \<Longrightarrow> getIPLoop e ic 0 prev st = (Inr r, st')"
  by (simp add: getIPLoop.simps[of e ic 0] maxRetries_def)

lemma sample_observe:
  assumes "readIP (okGet (address (queries st))) = Inr ip"
  shows "GetPublicIPWithService (sampleEnv address records) NewIPChecker st =
          (Inr (ip, ''https://api.ipify.org''), st\<lparr>queries := queries st @ [''https://api.ipify.org'']\<rparr>)"
  using GetPublic_primary[of "sampleEnv address records" st NewIPChecker ip] assms
  by (simp add: sampleEnv_def NewIPChecker_def)

lemma sample_list:
  "GetAllDNSRecords (sampleEnv address records) z n t st =
     (Inr (filter (\<lambda>r. Type r = t) (records (requests st))), sent (listRequest z n) st)"
  by (simp add: GetAllDNSRecords_def ListDNSRecords_def sampleEnv_def okList_def checked_def Let_def)

lemma sample_steady:
  assumes "readIP (okGet a) = Inr a"
  shows "getIPLoop (sampleEnv (\<lambda>log. a) records) NewIPChecker 0 (Inr ([], [])) (startState cur) =
           (Inr (a, ''https://api.ipify.org''),
            (startState cur)\<lparr>queries := [''https://api.ipify.org'']\<rparr>)"
    and "GetPublicIPWithService (sampleEnv (\<lambda>log. a) records) NewIPChecker
           ((startState cur)\<lparr>queries := [''https://api.ipify.org'']\<rparr>) =
           (Inr (a, ''https://api.ipify.org''),
            (startState cur)\<lparr>queries := [''https://api.ipify.org'', ''https://api.ipify.org'']\<rparr>)"
proof -
  have "GetPublicIPWithService (sampleEnv (\<lambda>log. a) records) NewIPChecker (startState cur) =
          (Inr (a, ''https://api.ipify.org''),
           (startState cur)\<lparr>queries := queries (startState cur) @ [''https://api.ipify.org'']\<rparr>)"
    by (rule sample_observe) (simp add: assms)
  then show "getIPLoop (sampleEnv (\<lambda>log. a) records) NewIPChecker 0 (Inr ([], [])) (startState cur) =
           (Inr (a, ''https://api.ipify.org''),
            (startState cur)\<lparr>queries := [''https://api.ipify.org'']\<rparr>)"
    by (simp add: getIPLoop_first startState_def)
  have "GetPublicIPWithService (sampleEnv (\<lambda>log. a) records) NewIPChecker
           ((startState cur)\<lparr>queries := [''https://api.ipify.org'']\<rparr>) =
          (Inr (a, ''https://api.ipify.org''),
           ((startState cur)\<lparr>queries := [''https://api.ipify.org'']\<rparr>)
              \<lparr>queries := queries ((startState cur)\<lparr>queries := [''https://api.ipify.org'']\<rparr>)
                   @ [''https://api.ipify.org'']\<rparr>)"
    by (rule sample_observe) (simp add: assms)
  then show "GetPublicIPWithService (sampleEnv (\<lambda>log. a) records) NewIPChecker
           ((startState cur)\<lparr>queries := [''https://api.ipify.org'']\<rparr>) =
           (Inr (a, ''https://api.ipify.org''),
            (startState cur)\<lparr>queries := [''https://api.ipify.org'', ''https://api.ipify.org'']\<rparr>)"
    by simp
qed

lemma sample_ListDNSRecords:
  "ListDNSRecords (sampleEnv address records) z n st =
     (Inr (records (requests st)), sent (listRequest z n) st)"
  by (simp add: ListDNSRecords_def sampleEnv_def okList_def checked_def Let_def)

lemma sample_update:
  "checked (apiUpdate (sampleEnv address records) h (updateRequest z i u)) =
     Inr (UpdateResult [] (updType u) (updName u) (updContent u))"
  by (simp add: sampleEnv_def echoUpdate_def updateRequest_def checked_def)

lemma sample_create:
  "CreateDNSRecord (sampleEnv address records) z n t c ttl st =
     (Inr \<lparr>ID = ''new'', Type = t, Name = n, Content = c, TTL = ttl, Proxied = False\<rparr>,
      sent (createRequest z (DNSRecordCreateRequest t n c ttl)) st)"
  by (simp add: CreateDNSRecord_def sampleEnv_def echoCreate_def createRequest_def checked_def Let_def)

lemma startState_sel:
  "currentIP (startState c) = c" "queries (startState c) = []" "requests (startState c) = []"
  by (simp_all add: startState_def)

lemma config_simps:
  "ZoneID sampleConfig = ''zone''" "RecordName sampleConfig = ''host.example.com''"
  "RecordType sampleConfig = ''A''"
  by (simp_all add: sampleConfig_def)

lemma sample_first_attempt:
  "UpdateOrCreateDNSRecord e z n t c ttl old st = (None, st') \<Longrightarrow>
   updateLoop e \<lparr>APIToken = tok, ZoneID = z, RecordName = n, RecordType = t\<rparr> c ttl old 0 le st =
     ((True, None), st')"
  by (simp add: updateLoop.simps[of _ _ _ _ _ 0] maxRetries_def)

lemma empty_store_create:
  assumes "records (requests st) = []"
  shows "UpdateOrCreateDNSRecord (sampleEnv address records) z n t c ttl old st =
           (None, sent (createRequest z (DNSRecordCreateRequest t n c ttl)) (sent (listRequest z n) st))"
  using assms by (simp add: UpdateOrCreateDNSRecord_def sample_list sample_create errorOf_def)

lemma lost_run:
  fixes E S P lr cr
  defines "E \<equiv> sampleEnv (\<lambda>log. ''1.2.3.4'') (\<lambda>h. [])"
    and "S \<equiv> (startState [])\<lparr>queries := [''https://api.ipify.org'', ''https://api.ipify.org'']\<rparr>"
    and "lr \<equiv> listRequest ''zone'' ''host.example.com''"
    and "cr \<equiv> createRequest ''zone'' (DNSRecordCreateRequest ''A'' ''host.example.com'' ''1.2.3.4'' 3600)"
  shows "GetAllDNSRecords E (ZoneID sampleConfig) (RecordName sampleConfig)
           (RecordType sampleConfig) S = (Inr [], sent lr S)"
    and "updateLoop E sampleConfig ''1.2.3.4'' 3600 [] 0 None (sent lr S) =
           ((True, None), sent cr (sent lr (sent lr S)))"
    and "GetAllDNSRecords E (ZoneID sampleConfig) (RecordName sampleConfig)
           (RecordType sampleConfig) (sent cr (sent lr (sent lr S))) =
           (Inr [], sent lr (sent cr (sent lr (sent lr S))))"
proof -
  show "GetAllDNSRecords E (ZoneID sampleConfig) (RecordName sampleConfig)
           (RecordType sampleConfig) S = (Inr [], sent lr S)"
    by (simp add: E_def lr_def sample_list config_simps)
  have "UpdateOrCreateDNSRecord E ''zone'' ''host.example.com'' ''A'' ''1.2.3.4'' 3600 [] (sent lr S) =
          (None, sent cr (sent lr (sent lr S)))"
    unfolding E_def cr_def lr_def by (rule empty_store_create) simp
  then show "updateLoop E sampleConfig ''1.2.3.4'' 3600 [] 0 None (sent lr S) =
           ((True, None), sent cr (sent lr (sent lr S)))"
    unfolding sampleConfig_def by (rule sample_first_attempt)
  show "GetAllDNSRecords E (ZoneID sampleConfig) (RecordName sampleConfig)
           (RecordType sampleConfig) (sent cr (sent lr (sent lr S))) =
           (Inr [], sent lr (sent cr (sent lr (sent lr S))))"
    by (simp add: E_def lr_def sample_list config_simps)
qed

lemma readIP_status: "code \<noteq> 200 \<Longrightarrow> readIP (GetResponse code rd) = Inl (ServiceStatus code)"
  by (simp add: readIP_def)

lemma backups_of_NewIPChecker:
  "filter (\<lambda>s. s \<noteq> ''https://api.ipify.org'') (services NewIPChecker) =
     [''https://ifconfig.me/ip'', ''https://icanhazip.com'', ''https://api.ip.sb/ip'']"
  by (simp add: NewIPChecker_def)

subsection \<open>The claims about configuration\<close>

text \<open>
  C10. LoadConfig always returns a configuration, never nil and never an error:
  whatever the directory creation, the read and the JSON decoding do, the result is a
  Config whose RecordType is not empty. It is the default configuration with
  RecordType "A" when the file cannot be read or the JSON does not parse, and the
  decoded configuration with an empty RecordType replaced by "A" otherwise.
\<close>

theorem LoadConfig_total:
  "\<exists>c. fst (LoadConfig unmarshal fs) = Some c \<and> RecordType c \<noteq> [] \<and>
       c = (case readFile fs of
              Inl e \<Rightarrow> zeroConfig\<lparr>RecordType := ''A''\<rparr>
            | Inr data \<Rightarrow>
                (case unmarshal data of
                   Inl e \<Rightarrow> zeroConfig\<lparr>RecordType := ''A''\<rparr>
                 | Inr cfg \<Rightarrow> if RecordType cfg = [] then cfg\<lparr>RecordType := ''A''\<rparr> else cfg))"
  by (simp add: LoadConfig_def Let_def split: sum.split)

subsection \<open>The claims about the cycle\<close>

text \<open>
  C4. When the address the cycle observes (the first successful result of the retried
  discovery) equals \<open>currentIP\<close>, the cycle ends right after the discovery: no request
  of any kind is sent to the provider and \<open>currentIP\<close> is unchanged. The statement
  holds from every state, so a second cycle that observes the address the first one
  left in \<open>currentIP\<close> sends nothing either.
\<close>

theorem unchanged_address_no_provider_call:
  assumes "getIPLoop e ic 0 (Inr ([], [])) st = (Inr (ip, svc), st1)"
    and "ip = currentIP st"
  shows "checkAndUpdate e config ic st = st1 \<and> requests st1 = requests st \<and>
         currentIP st1 = currentIP st"
  using assms getIPLoop_frame[of e ic 0 "Inr ([], [])" st]
  by (simp add: checkAndUpdate_def)

text \<open>The services answer 1.2.3.4 and \<open>currentIP\<close> is 1.2.3.4: one query, no request.\<close>

theorem unchanged_address_no_provider_call_witness:
  "checkAndUpdate (sampleEnv (\<lambda>log. ''1.2.3.4'') (\<lambda>h. [])) sampleConfig NewIPChecker
      (startState ''1.2.3.4'') =
     (startState ''1.2.3.4'')\<lparr>queries := [''https://api.ipify.org'']\<rparr> \<and>
   requests (checkAndUpdate (sampleEnv (\<lambda>log. ''1.2.3.4'') (\<lambda>h. [])) sampleConfig NewIPChecker
      (startState ''1.2.3.4'')) = []"
proof -
  let ?E = "sampleEnv (\<lambda>log. ''1.2.3.4'') (\<lambda>h. [])"
  let ?S = "startState ''1.2.3.4''"
  have "GetPublicIPWithService ?E NewIPChecker ?S =
          (Inr (''1.2.3.4'', ''https://api.ipify.org''), ?S\<lparr>queries := queries ?S @ [''https://api.ipify.org'']\<rparr>)"
    by (rule sample_observe) (simp add: readIP_1234)
  then have h1: "getIPLoop ?E NewIPChecker 0 (Inr ([], [])) ?S =
          (Inr (''1.2.3.4'', ''https://api.ipify.org''), ?S\<lparr>queries := [''https://api.ipify.org'']\<rparr>)"
    by (simp add: getIPLoop_first startState_def)
  have h2: "''1.2.3.4'' = currentIP ?S" by (simp add: startState_def)
  from unchanged_address_no_provider_call[OF h1 h2, of sampleConfig] show ?thesis
    by (simp add: startState_def)
qed

text \<open>
  C3. When the observed address differs from \<open>currentIP\<close> and the confirming second
  observation differs from the first, the cycle ends there: the provider's request log
  is what it was (no list, create or update was sent) and \<open>currentIP\<close> is unchanged.
\<close>

theorem unconfirmed_change_aborts:
  assumes "getIPLoop e ic 0 (Inr ([], [])) st = (Inr (ip, svc), st1)"
    and "ip \<noteq> currentIP st"
    and "GetPublicIPWithService e ic st1 = (Inr (confirmIP, confirmService), st2)"
    and "confirmIP \<noteq> ip"
  shows "checkAndUpdate e config ic st = st2 \<and> requests st2 = requests st \<and>
         currentIP st2 = currentIP st"
  using assms getIPLoop_frame[of e ic 0 "Inr ([], [])" st]
    GetPublicIPWithService_frame[of e ic st1]
  by (simp add: checkAndUpdate_def)

text \<open>The first answer is 1.2.3.4, the confirming one 5.6.7.8: two queries, no request.\<close>

theorem unconfirmed_change_aborts_witness:
  "checkAndUpdate (sampleEnv (\<lambda>log. if log = [] then ''1.2.3.4'' else ''5.6.7.8'') (\<lambda>h. []))
      sampleConfig NewIPChecker (startState []) =
     (startState [])\<lparr>queries := [''https://api.ipify.org'', ''https://api.ipify.org'']\<rparr> \<and>
   requests (checkAndUpdate (sampleEnv (\<lambda>log. if log = [] then ''1.2.3.4'' else ''5.6.7.8'') (\<lambda>h. []))
      sampleConfig NewIPChecker (startState [])) = [] \<and>
   currentIP (checkAndUpdate (sampleEnv (\<lambda>log. if log = [] then ''1.2.3.4'' else ''5.6.7.8'') (\<lambda>h. []))
      sampleConfig NewIPChecker (startState [])) = []"
proof -
  let ?E = "sampleEnv (\<lambda>log. if log = [] then ''1.2.3.4'' else ''5.6.7.8'') (\<lambda>h. [])"
  let ?S = "startState []"
  let ?P = "''https://api.ipify.org''"
  have "GetPublicIPWithService ?E NewIPChecker ?S =
          (Inr (''1.2.3.4'', ?P), ?S\<lparr>queries := queries ?S @ [?P]\<rparr>)"
    by (rule sample_observe) (simp add: readIP_1234 startState_def)
  then have h1: "getIPLoop ?E NewIPChecker 0 (Inr ([], [])) ?S =
          (Inr (''1.2.3.4'', ?P), ?S\<lparr>queries := [?P]\<rparr>)"
    by (simp add: getIPLoop_first startState_def)
  have h2: "''1.2.3.4'' \<noteq> currentIP ?S" by (simp add: startState_def)
  have "GetPublicIPWithService ?E NewIPChecker (?S\<lparr>queries := [?P]\<rparr>) =
          (Inr (''5.6.7.8'', ?P),
           (?S\<lparr>queries := [?P]\<rparr>)\<lparr>queries := queries (?S\<lparr>queries := [?P]\<rparr>) @ [?P]\<rparr>)"
    by (rule sample_observe) (simp add: readIP_5678)
  then have h3: "GetPublicIPWithService ?E NewIPChecker (?S\<lparr>queries := [?P]\<rparr>) =
          (Inr (''5.6.7.8'', ?P), ?S\<lparr>queries := [?P, ?P]\<rparr>)"
    by simp
  have h4: "''5.6.7.8'' \<noteq> ''1.2.3.4''" by simp
  from unconfirmed_change_aborts[OF h1 h2 h3 h4, of sampleConfig] show ?thesis
    by (simp add: startState_def)
qed

text \<open>
  C9. In a cycle with a confirmed change, when the freshly listed records of the
  configured type and name contain one whose content is the confirmed address, the
  cycle sets \<open>currentIP\<close> to that address and stops: the one request it has sent to
  the provider is the listing, so no create and no update.
\<close>

theorem already_applied_no_mutation:
  assumes "getIPLoop e ic 0 (Inr ([], [])) st = (Inr (ip, svc), st1)"
    and "ip \<noteq> currentIP st"
    and "GetPublicIPWithService e ic st1 = (Inr (ip, confirmService), st2)"
    and "GetAllDNSRecords e (ZoneID config) (RecordName config) (RecordType config) st2 =
           (Inr allRecords, st3)"
    and "ip \<in> Content ` set allRecords"
  shows "checkAndUpdate e config ic st = st3\<lparr>currentIP := ip\<rparr> \<and>
         currentIP (checkAndUpdate e config ic st) = ip \<and>
         requests (checkAndUpdate e config ic st) =
           requests st @ [listRequest (ZoneID config) (RecordName config)]"
proof -
  have "st3 = sent (listRequest (ZoneID config) (RecordName config)) st2"
    using GetAllDNSRecords_state[of e "ZoneID config" "RecordName config" "RecordType config" st2]
      assms(4) by simp
  then show ?thesis
    using cycle_confirmed[OF assms(1-3)] assms(4,5) by simp
qed

text \<open>The provider already lists a record with content 1.2.3.4: one listing, nothing else.\<close>

theorem already_applied_no_mutation_witness:
  "currentIP (checkAndUpdate (sampleEnv (\<lambda>log. ''1.2.3.4'') (\<lambda>h. [arecord ''r1'' ''1.2.3.4'' 600]))
      sampleConfig NewIPChecker (startState [])) = ''1.2.3.4'' \<and>
   requests (checkAndUpdate (sampleEnv (\<lambda>log. ''1.2.3.4'') (\<lambda>h. [arecord ''r1'' ''1.2.3.4'' 600]))
      sampleConfig NewIPChecker (startState [])) = [listRequest ''zone'' ''host.example.com'']"
proof -
  let ?E = "sampleEnv (\<lambda>log. ''1.2.3.4'') (\<lambda>h. [arecord ''r1'' ''1.2.3.4'' 600])"
  let ?S = "startState []"
  let ?P = "''https://api.ipify.org''"
  note h1 = sample_steady(1)[OF readIP_1234, of "\<lambda>h. [arecord ''r1'' ''1.2.3.4'' 600]" "[]"]
  note h3 = sample_steady(2)[OF readIP_1234, of "\<lambda>h. [arecord ''r1'' ''1.2.3.4'' 600]" "[]"]
  have h2: "''1.2.3.4'' \<noteq> currentIP ?S" by (simp add: startState_def)
  have h4: "GetAllDNSRecords ?E (ZoneID sampleConfig) (RecordName sampleConfig)
      (RecordType sampleConfig) (?S\<lparr>queries := [?P, ?P]\<rparr>) =
      (Inr [arecord ''r1'' ''1.2.3.4'' 600],
       sent (listRequest ''zone'' ''host.example.com'') (?S\<lparr>queries := [?P, ?P]\<rparr>))"
    by (simp add: sample_list config_simps arecord_def)
  have h5: "''1.2.3.4'' \<in> Content ` set [arecord ''r1'' ''1.2.3.4'' 600]"
    by (simp add: arecord_def)
  from already_applied_no_mutation[OF h1 h2 h3 h4 h5] show ?thesis
    by (simp add: startState_def config_simps)
qed

text \<open>
  C8, as the code has it. Take a cycle with a confirmed change whose listing shows no
  record with the confirmed content, and in which the listing inside the mutation call
  fails or shows neither a record with the confirmed content nor, for a non-empty
  \<open>currentIP\<close>, one with the content \<open>currentIP\<close>. Then the cycle sends the create
  request with the confirmed address, the configured type and name, and as TTL the TTL
  of the first record of the cycle's own listing (the records of the configured type at
  the name), or 3600 when that listing is empty or failed; every create request of the
  cycle is that one; and when the create call succeeds it is the only mutation of the
  cycle and \<open>currentIP\<close> is the confirmed address afterwards.
\<close>

theorem fallback_create_ttl:
  assumes "getIPLoop e ic 0 (Inr ([], [])) st = (Inr (ip, svc), st1)"
    and "ip \<noteq> currentIP st"
    and "GetPublicIPWithService e ic st1 = (Inr (ip, confirmService), st2)"
    and "GetAllDNSRecords e (ZoneID config) (RecordName config) (RecordType config) st2 =
           (listed, st3)"
    and "\<forall>rs. listed = Inr rs \<longrightarrow> ip \<notin> Content ` set rs"
    and "GetAllDNSRecords e (ZoneID config) (RecordName config) (RecordType config) st3 =
           (relisted, st4)"
    and "\<forall>rs. relisted = Inr rs \<longrightarrow>
           ip \<notin> Content ` set rs \<and> (currentIP st = [] \<or> currentIP st \<notin> Content ` set rs)"
    and "cr = createRequest (ZoneID config)
                (DNSRecordCreateRequest (RecordType config) (RecordName config) ip
                   (case listed of Inr (x # xs) \<Rightarrow> TTL x | _ \<Rightarrow> 3600))"
  shows "cr \<in> set (drop (length (requests st)) (requests (checkAndUpdate e config ic st))) \<and>
         (\<forall>r \<in> set (drop (length (requests st)) (requests (checkAndUpdate e config ic st))).
            reqMethod r = ''POST'' \<longrightarrow> r = cr) \<and>
         (\<forall>created st5.
            CreateDNSRecord e (ZoneID config) (RecordName config) (RecordType config) ip
              (case listed of Inr (x # xs) \<Rightarrow> TTL x | _ \<Rightarrow> 3600) st4 = (Inr created, st5) \<longrightarrow>
            filter (\<lambda>r. reqMethod r \<noteq> ''GET'')
              (drop (length (requests st)) (requests (checkAndUpdate e config ic st))) = [cr] \<and>
            currentIP (checkAndUpdate e config ic st) = ip)"
proof -
  let ?Z = "ZoneID config" and ?N = "RecordName config" and ?T = "RecordType config"
  let ?lr = "listRequest ?Z ?N"
  let ?all = "case listed of Inr rs \<Rightarrow> rs | Inl err \<Rightarrow> []"
  let ?ttl = "case listed of Inr (x # xs) \<Rightarrow> TTL x | _ \<Rightarrow> 3600"
  have ttl: "(if length ?all > 0 then TTL (?all ! 0) else 3600) = ?ttl"
    by (cases listed) (simp_all split: list.split)
  have st3: "st3 = sent ?lr st2"
    using GetAllDNSRecords_state[of e ?Z ?N ?T st2] assms(4) by simp
  have st4: "st4 = sent ?lr st3"
    using GetAllDNSRecords_state[of e ?Z ?N ?T st3] assms(6) by simp
  note cc = cycle_confirmed[OF assms(1-3)]
  have r3: "requests st3 = requests st @ [?lr]" and c3: "currentIP st3 = currentIP st"
    using st3 cc(2,3) by simp_all
  have run: "checkAndUpdate e config ic st = applyChange e config ip ?all st3"
    using cc(1)[of config] assms(4,5) by (cases listed) simp_all
  have uoc: "UpdateOrCreateDNSRecord e ?Z ?N ?T ip ?ttl (currentIP st3) st3 =
           (errorOf (fst (CreateDNSRecord e ?Z ?N ?T ip ?ttl st4)), sent cr st4)"
    unfolding assms(8) c3 by (rule UpdateOrCreate_fallback[OF assms(6) assms(7)])
  obtain more1 where m1: "requests (snd (updateLoop e config ip ?ttl (currentIP st3) 0 None st3)) =
      requests (sent cr st4) @ more1"
    using updateLoop_extends_first[of e config ip ?ttl "currentIP st3" None st3] uoc by auto
  obtain more2 where m2: "requests (applyChange e config ip ?all st3) =
      requests (snd (updateLoop e config ip ?ttl (currentIP st3) 0 None st3)) @ more2"
    using applyChange_extends_loop[of e config ip ?all st3] ttl by auto
  have issued: "cr \<in> set (drop (length (requests st)) (requests (checkAndUpdate e config ic st)))"
    using run m1 m2 st4 r3 by simp
  obtain new where n: "requests (applyChange e config ip ?all st3) = requests st3 @ new"
    "onlyCreates cr new"
    using applyChange_adds[of e config ip ?all st3] ttl assms(8) by auto
  have every: "\<forall>r \<in> set (drop (length (requests st)) (requests (checkAndUpdate e config ic st))).
            reqMethod r = ''POST'' \<longrightarrow> r = cr"
    using run n r3 by (simp add: onlyCreates_def)
  have single: "filter (\<lambda>r. reqMethod r \<noteq> ''GET'')
              (drop (length (requests st)) (requests (checkAndUpdate e config ic st))) = [cr] \<and>
            currentIP (checkAndUpdate e config ic st) = ip"
    if c: "CreateDNSRecord e ?Z ?N ?T ip ?ttl st4 = (Inr created, st5)" for created st5
  proof -
    have u: "UpdateOrCreateDNSRecord e ?Z ?N ?T ip ?ttl (currentIP st3) st3 = (None, sent cr st4)"
      using uoc c by (simp add: errorOf_def)
    have ul: "updateLoop e config ip ?ttl (currentIP st3) 0 None st3 = ((True, None), sent cr st4)"
      using u by (simp add: updateLoop.simps[of e config ip ?ttl "currentIP st3" 0] maxRetries_def)
    obtain vr st6 where v: "GetAllDNSRecords e ?Z ?N ?T (sent cr st4) = (vr, st6)"
      by (cases "GetAllDNSRecords e ?Z ?N ?T (sent cr st4)")
    have st6: "st6 = sent ?lr (sent cr st4)"
      using GetAllDNSRecords_state[of e ?Z ?N ?T "sent cr st4"] v by simp
    have "applyChange e config ip ?all st3 = st6\<lparr>currentIP := ip\<rparr>"
      using ul v ttl by (simp add: applyChange_def)
    with run st6 st4 r3 assms(8) show ?thesis by simp
  qed
  from issued every single show ?thesis by blast
qed

text \<open>
  Two runs. The provider lists one record of another host, 9.9.9.9 with TTL 120, the
  record for \<open>currentIP\<close> 1.2.3.4 is gone and 5.6.7.8 is observed twice: one create,
  with TTL 120. The example of the specification: empty \<open>currentIP\<close>, no records,
  1.2.3.4 observed twice: one create, with TTL 3600.
\<close>

theorem fallback_create_ttl_witness:
  "filter (\<lambda>r. reqMethod r \<noteq> ''GET'')
     (requests (checkAndUpdate
        (sampleEnv (\<lambda>log. ''5.6.7.8'') (storeAfter [arecord ''r2'' ''9.9.9.9'' 120]))
        sampleConfig NewIPChecker (startState ''1.2.3.4''))) =
     [createRequest ''zone'' (DNSRecordCreateRequest ''A'' ''host.example.com'' ''5.6.7.8'' 120)] \<and>
   currentIP (checkAndUpdate
        (sampleEnv (\<lambda>log. ''5.6.7.8'') (storeAfter [arecord ''r2'' ''9.9.9.9'' 120]))
        sampleConfig NewIPChecker (startState ''1.2.3.4'')) = ''5.6.7.8'' \<and>
   filter (\<lambda>r. reqMethod r \<noteq> ''GET'')
     (requests (checkAndUpdate (sampleEnv (\<lambda>log. ''1.2.3.4'') (storeAfter [])) sampleConfig
        NewIPChecker (startState []))) =
     [createRequest ''zone'' (DNSRecordCreateRequest ''A'' ''host.example.com'' ''1.2.3.4'' 3600)] \<and>
   currentIP (checkAndUpdate (sampleEnv (\<lambda>log. ''1.2.3.4'') (storeAfter [])) sampleConfig
        NewIPChecker (startState [])) = ''1.2.3.4''"
proof -
  let ?P = "''https://api.ipify.org''"
  let ?lr = "listRequest ''zone'' ''host.example.com''"
  let ?r2 = "arecord ''r2'' ''9.9.9.9'' 120"
  let ?E = "sampleEnv (\<lambda>log. ''5.6.7.8'') (storeAfter [?r2])"
  let ?S = "startState ''1.2.3.4''"
  let ?st2 = "?S\<lparr>queries := [?P, ?P]\<rparr>"
  note h1 = sample_steady(1)[OF readIP_5678, of "storeAfter [?r2]" "''1.2.3.4''"]
  note h3 = sample_steady(2)[OF readIP_5678, of "storeAfter [?r2]" "''1.2.3.4''"]
  have h2: "''5.6.7.8'' \<noteq> currentIP ?S" by (simp add: startState_sel)
  have h4: "GetAllDNSRecords ?E (ZoneID sampleConfig) (RecordName sampleConfig)
      (RecordType sampleConfig) ?st2 = (Inr [?r2], sent ?lr ?st2)"
    by (simp add: sample_list config_simps storeAfter_def startState_sel arecord_def)
  have h5: "\<forall>rs. (Inr [?r2] :: error + DNSRecord list) = Inr rs \<longrightarrow>
      ''5.6.7.8'' \<notin> Content ` set rs"
    by (simp add: arecord_def)
  have h6: "GetAllDNSRecords ?E (ZoneID sampleConfig) (RecordName sampleConfig)
      (RecordType sampleConfig) (sent ?lr ?st2) = (Inr [?r2], sent ?lr (sent ?lr ?st2))"
    by (simp add: sample_list config_simps storeAfter_def startState_sel arecord_def
        applyRequest_def listRequest_def)
  have h7: "\<forall>rs. (Inr [?r2] :: error + DNSRecord list) = Inr rs \<longrightarrow>
      ''5.6.7.8'' \<notin> Content ` set rs \<and>
      (currentIP ?S = [] \<or> currentIP ?S \<notin> Content ` set rs)"
    by (simp add: arecord_def startState_sel)
  have h9: "CreateDNSRecord ?E (ZoneID sampleConfig) (RecordName sampleConfig)
      (RecordType sampleConfig) ''5.6.7.8''
      (case (Inr [?r2] :: error + DNSRecord list) of Inr (x # xs) \<Rightarrow> TTL x | _ \<Rightarrow> 3600)
      (sent ?lr (sent ?lr ?st2)) =
      (Inr \<lparr>ID = ''new'', Type = ''A'', Name = ''host.example.com'', Content = ''5.6.7.8'',
            TTL = 120, Proxied = False\<rparr>,
       sent (createRequest ''zone'' (DNSRecordCreateRequest ''A'' ''host.example.com'' ''5.6.7.8'' 120))
         (sent ?lr (sent ?lr ?st2)))"
    by (simp add: sample_create config_simps arecord_def)
  note a = fallback_create_ttl[OF h1 h2 h3 h4 h5 h6 h7 refl, THEN conjunct2, THEN conjunct2, rule_format, OF h9]
  let ?E0 = "sampleEnv (\<lambda>log. ''1.2.3.4'') (storeAfter [])"
  let ?S0 = "startState []"
  let ?s2 = "?S0\<lparr>queries := [?P, ?P]\<rparr>"
  note g1 = sample_steady(1)[OF readIP_1234, of "storeAfter []" "[]"]
  note g3 = sample_steady(2)[OF readIP_1234, of "storeAfter []" "[]"]
  have g2: "''1.2.3.4'' \<noteq> currentIP ?S0" by (simp add: startState_sel)
  have g4: "GetAllDNSRecords ?E0 (ZoneID sampleConfig) (RecordName sampleConfig)
      (RecordType sampleConfig) ?s2 = (Inr [], sent ?lr ?s2)"
    by (simp add: sample_list config_simps storeAfter_def startState_sel)
  have g5: "\<forall>rs. (Inr [] :: error + DNSRecord list) = Inr rs \<longrightarrow>
      ''1.2.3.4'' \<notin> Content ` set rs"
    by simp
  have g6: "GetAllDNSRecords ?E0 (ZoneID sampleConfig) (RecordName sampleConfig)
      (RecordType sampleConfig) (sent ?lr ?s2) = (Inr [], sent ?lr (sent ?lr ?s2))"
    by (simp add: sample_list config_simps storeAfter_def startState_sel applyRequest_def
        listRequest_def)
  have g7: "\<forall>rs. (Inr [] :: error + DNSRecord list) = Inr rs \<longrightarrow>
      ''1.2.3.4'' \<notin> Content ` set rs \<and>
      (currentIP ?S0 = [] \<or> currentIP ?S0 \<notin> Content ` set rs)"
    by simp
  have g9: "CreateDNSRecord ?E0 (ZoneID sampleConfig) (RecordName sampleConfig)
      (RecordType sampleConfig) ''1.2.3.4''
      (case (Inr [] :: error + DNSRecord list) of Inr (x # xs) \<Rightarrow> TTL x | _ \<Rightarrow> 3600)
      (sent ?lr (sent ?lr ?s2)) =
      (Inr \<lparr>ID = ''new'', Type = ''A'', Name = ''host.example.com'', Content = ''1.2.3.4'',
            TTL = 3600, Proxied = False\<rparr>,
       sent (createRequest ''zone'' (DNSRecordCreateRequest ''A'' ''host.example.com'' ''1.2.3.4'' 3600))
         (sent ?lr (sent ?lr ?s2)))"
    by (simp add: sample_create config_simps)
  note b = fallback_create_ttl[OF g1 g2 g3 g4 g5 g6 g7 refl, THEN conjunct2, THEN conjunct2, rule_format, OF g9]
  from a b show ?thesis
    by (simp add: startState_sel config_simps arecord_def)
qed

text \<open>
  The claim says that the create uses the TTL of an existing record whenever one exists
  at the name. The TTL is taken from the cycle's own listing, and a failed listing
  counts as no record: here that listing is answered with status 500, the listing
  inside the mutation call then shows the record 9.9.9.9 with TTL 120, and the create
  is sent with TTL 3600.
\<close>

theorem failed_listing_default_ttl_counterexample:
  "currentIP (startState []) = [] \<and>
   fst (GetAllDNSRecords
     ((sampleEnv (\<lambda>log. ''5.6.7.8'') (\<lambda>h. []))
        \<lparr>apiList := firstListFails [arecord ''r2'' ''9.9.9.9'' 120]\<rparr>)
     ''zone'' ''host.example.com'' ''A''
     (sent (listRequest ''zone'' ''host.example.com'')
        ((startState [])\<lparr>queries := [''https://api.ipify.org'', ''https://api.ipify.org'']\<rparr>))) =
     Inr [arecord ''r2'' ''9.9.9.9'' 120] \<and>
   filter (\<lambda>r. reqMethod r \<noteq> ''GET'')
     (requests (checkAndUpdate
        ((sampleEnv (\<lambda>log. ''5.6.7.8'') (\<lambda>h. []))
           \<lparr>apiList := firstListFails [arecord ''r2'' ''9.9.9.9'' 120]\<rparr>)
        sampleConfig NewIPChecker (startState []))) =
     [createRequest ''zone'' (DNSRecordCreateRequest ''A'' ''host.example.com'' ''5.6.7.8'' 3600)]"
proof -
  let ?P = "''https://api.ipify.org''"
  let ?E = "(sampleEnv (\<lambda>log. ''5.6.7.8'') (\<lambda>h. []))
        \<lparr>apiList := firstListFails [arecord ''r2'' ''9.9.9.9'' 120]\<rparr>"
  let ?S = "startState []"
  have o1: "GetPublicIPWithService ?E NewIPChecker ?S =
      (Inr (''5.6.7.8'', primaryService NewIPChecker),
       ?S\<lparr>queries := queries ?S @ [primaryService NewIPChecker]\<rparr>)"
    by (rule GetPublic_primary) (simp add: sampleEnv_def readIP_5678)
  have h1: "getIPLoop ?E NewIPChecker 0 (Inr ([], [])) ?S =
      (Inr (''5.6.7.8'', ?P), ?S\<lparr>queries := [?P]\<rparr>)"
    using getIPLoop_first[OF o1] by (simp add: NewIPChecker_def startState_sel)
  have o2: "GetPublicIPWithService ?E NewIPChecker (?S\<lparr>queries := [?P]\<rparr>) =
      (Inr (''5.6.7.8'', primaryService NewIPChecker),
       (?S\<lparr>queries := [?P]\<rparr>)\<lparr>queries := queries (?S\<lparr>queries := [?P]\<rparr>) @
          [primaryService NewIPChecker]\<rparr>)"
    by (rule GetPublic_primary) (simp add: sampleEnv_def readIP_5678)
  have h3: "GetPublicIPWithService ?E NewIPChecker (?S\<lparr>queries := [?P]\<rparr>) =
      (Inr (''5.6.7.8'', ?P), ?S\<lparr>queries := [?P, ?P]\<rparr>)"
    using o2 by (simp add: NewIPChecker_def)
  have h2: "''5.6.7.8'' \<noteq> currentIP ?S" by (simp add: startState_sel)
  have run: "requests (checkAndUpdate ?E sampleConfig NewIPChecker ?S) =
      [listRequest ''zone'' ''host.example.com'', listRequest ''zone'' ''host.example.com'',
       createRequest ''zone'' (DNSRecordCreateRequest ''A'' ''host.example.com'' ''5.6.7.8'' 3600),
       listRequest ''zone'' ''host.example.com'']"
    apply (subst cycle_confirmed(1)[OF h1 h2 h3])
    by (simp add: config_simps startState_sel GetAllDNSRecords_def ListDNSRecords_def
        checked_def sampleEnv_def firstListFails_def okList_def echoCreate_def
        CreateDNSRecord_def UpdateOrCreateDNSRecord_def applyChange_def
        updateLoop.simps[of _ _ _ _ _ 0] maxRetries_def errorOf_def arecord_def
        listRequest_def createRequest_def sent_def Let_def)
  have relist: "fst (GetAllDNSRecords ?E ''zone'' ''host.example.com'' ''A''
     (sent (listRequest ''zone'' ''host.example.com'') (?S\<lparr>queries := [?P, ?P]\<rparr>))) =
     Inr [arecord ''r2'' ''9.9.9.9'' 120]"
    by (simp add: GetAllDNSRecords_def ListDNSRecords_def checked_def sampleEnv_def
        firstListFails_def okList_def arecord_def startState_sel Let_def)
  show ?thesis
    unfolding run using relist
    by (simp add: startState_sel listRequest_def createRequest_def)
qed

text \<open>
  C2, as the code has it. The claim says that \<open>currentIP\<close> stays unchanged when the
  mutation succeeded and the verifying listing shows no record with the confirmed
  content. The code only logs that outcome: in a cycle with a confirmed change not
  yet present at the provider, whose retried mutation succeeds, \<open>currentIP\<close> becomes
  the confirmed address although the verifying listing has no record with that content.
\<close>

theorem verification_is_advisory:
  assumes "getIPLoop e ic 0 (Inr ([], [])) st = (Inr (ip, svc), st1)"
    and "ip \<noteq> currentIP st"
    and "GetPublicIPWithService e ic st1 = (Inr (ip, confirmService), st2)"
    and "GetAllDNSRecords e (ZoneID config) (RecordName config) (RecordType config) st2 =
           (listed, st3)"
    and "\<forall>allRecords. listed = Inr allRecords \<longrightarrow> ip \<notin> Content ` set allRecords"
    and "updateLoop e config ip (case listed of Inr (x # xs) \<Rightarrow> TTL x | _ \<Rightarrow> 3600)
           (currentIP st) 0 None st3 = ((True, lastErr), st4)"
    and "GetAllDNSRecords e (ZoneID config) (RecordName config) (RecordType config) st4 =
           (Inr verifyRecords, st5)"
    and "ip \<notin> Content ` set verifyRecords"
  shows "checkAndUpdate e config ic st = st5\<lparr>currentIP := ip\<rparr> \<and>
         currentIP (checkAndUpdate e config ic st) = ip \<and>
         currentIP (checkAndUpdate e config ic st) \<noteq> currentIP st"
proof -
  let ?Z = "ZoneID config" and ?N = "RecordName config" and ?T = "RecordType config"
  note cc = cycle_confirmed[OF assms(1-3)]
  have c3: "currentIP st3 = currentIP st"
    using GetAllDNSRecords_state[of e ?Z ?N ?T st2] assms(4) cc(3) by simp
  have "applyChange e config ip (case listed of Inr rs \<Rightarrow> rs | Inl err \<Rightarrow> []) st3 =
          st5\<lparr>currentIP := ip\<rparr>"
  proof (cases listed)
    case (Inl err)
    with assms(6,7) c3 show ?thesis by (simp add: applyChange_def)
  next
    case (Inr rs)
    with assms(6,7) c3 show ?thesis by (cases rs) (simp_all add: applyChange_def)
  qed
  with cc(1)[of config] assms(4,5) assms(2) show ?thesis
    by (cases listed) simp_all
qed

text \<open>A provider that acknowledges the create and then lists nothing.\<close>

theorem verification_is_advisory_witness:
  "currentIP (checkAndUpdate (sampleEnv (\<lambda>log. ''1.2.3.4'') (\<lambda>h. [])) sampleConfig
      NewIPChecker (startState [])) = ''1.2.3.4''"
proof -
  let ?S = "startState []"
  note h1 = sample_steady(1)[OF readIP_1234, of "\<lambda>h. []" "[]"]
  note h3 = sample_steady(2)[OF readIP_1234, of "\<lambda>h. []" "[]"]
  have h2: "''1.2.3.4'' \<noteq> currentIP ?S" by (simp add: startState_def)
  note h4 = lost_run(1)
  have h5: "\<forall>allRecords. (Inr [] :: error + DNSRecord list) = Inr allRecords \<longrightarrow>
              ''1.2.3.4'' \<notin> Content ` set allRecords" by simp
  have h6: "updateLoop (sampleEnv (\<lambda>log. ''1.2.3.4'') (\<lambda>h. [])) sampleConfig ''1.2.3.4''
      (case (Inr [] :: error + DNSRecord list) of Inr (x # xs) \<Rightarrow> TTL x | _ \<Rightarrow> 3600)
      (currentIP ?S) 0 None
      (sent (listRequest ''zone'' ''host.example.com'')
         (?S\<lparr>queries := [''https://api.ipify.org'', ''https://api.ipify.org'']\<rparr>)) =
      ((True, None),
       sent (createRequest ''zone'' (DNSRecordCreateRequest ''A'' ''host.example.com'' ''1.2.3.4'' 3600))
        (sent (listRequest ''zone'' ''host.example.com'')
          (sent (listRequest ''zone'' ''host.example.com'')
            (?S\<lparr>queries := [''https://api.ipify.org'', ''https://api.ipify.org'']\<rparr>))))"
    using lost_run(2) by (simp add: startState_def)
  note h7 = lost_run(3)
  have h8: "''1.2.3.4'' \<notin> Content ` set ([] :: DNSRecord list)" by simp
  from verification_is_advisory[OF h1 h2 h3 h4 h5 h6 h7 h8] show ?thesis by simp
qed

text \<open>
  The claim C2 as stated fails on that run: \<open>currentIP\<close> is empty before, the
  mutation loop reports success, the verifying listing is empty, and \<open>currentIP\<close>
  is 1.2.3.4 afterwards.
\<close>

theorem unverified_change_counterexample:
  "currentIP (startState []) = [] \<and>
   fst (updateLoop (sampleEnv (\<lambda>log. ''1.2.3.4'') (\<lambda>h. [])) sampleConfig ''1.2.3.4'' 3600 [] 0 None
     (sent (listRequest ''zone'' ''host.example.com'')
       ((startState [])\<lparr>queries := [''https://api.ipify.org'', ''https://api.ipify.org'']\<rparr>))) =
     (True, None) \<and>
   fst (GetAllDNSRecords (sampleEnv (\<lambda>log. ''1.2.3.4'') (\<lambda>h. [])) ''zone'' ''host.example.com'' ''A''
     (sent (createRequest ''zone'' (DNSRecordCreateRequest ''A'' ''host.example.com'' ''1.2.3.4'' 3600))
       (sent (listRequest ''zone'' ''host.example.com'')
         (sent (listRequest ''zone'' ''host.example.com'')
           ((startState [])\<lparr>queries := [''https://api.ipify.org'', ''https://api.ipify.org'']\<rparr>))))) =
     Inr [] \<and>
   currentIP (checkAndUpdate (sampleEnv (\<lambda>log. ''1.2.3.4'') (\<lambda>h. [])) sampleConfig
      NewIPChecker (startState [])) = ''1.2.3.4''"
proof -
  let ?S = "startState []"
  note h1 = sample_steady(1)[OF readIP_1234, of "\<lambda>h. []" "[]"]
  note h3 = sample_steady(2)[OF readIP_1234, of "\<lambda>h. []" "[]"]
  have h2: "''1.2.3.4'' \<noteq> currentIP ?S" by (simp add: startState_def)
  have run: "currentIP (checkAndUpdate (sampleEnv (\<lambda>log. ''1.2.3.4'') (\<lambda>h. [])) sampleConfig
      NewIPChecker (startState [])) = ''1.2.3.4''"
    by (simp add: cycle_confirmed(1)[OF h1 h2 h3] lost_run applyChange_def startState_sel)
  from run lost_run(2) lost_run(3) show ?thesis
    by (simp add: startState_sel config_simps)
qed

text \<open>
  C1. The claim says that the update goes to the record whose content is the last
  applied address, and that no record with another content is modified. The code finds
  that such a record exists and then calls \<open>UpdateDNSRecord\<close>, which updates the
  first listed record of the type. With the records r2 (content 9.9.9.9, TTL 120) and
  r1 (content 1.2.3.4, TTL 600) listed in this order, \<open>currentIP\<close> 1.2.3.4 and
  5.6.7.8 observed twice, the one mutation of the cycle is a PUT on r2 with TTL 120:
  afterwards r2 has content 5.6.7.8 and r1 still has content 1.2.3.4.
\<close>

theorem update_targets_first_record:
  "filter (\<lambda>r. reqMethod r \<noteq> ''GET'')
     (requests (checkAndUpdate
        (sampleEnv (\<lambda>log. ''5.6.7.8'')
           (storeAfter [arecord ''r2'' ''9.9.9.9'' 120, arecord ''r1'' ''1.2.3.4'' 600]))
        sampleConfig NewIPChecker (startState ''1.2.3.4''))) =
     [updateRequest ''zone'' ''r2''
        (DNSRecordUpdateRequest ''A'' ''host.example.com'' ''5.6.7.8'' 120)] \<and>
   storeAfter [arecord ''r2'' ''9.9.9.9'' 120, arecord ''r1'' ''1.2.3.4'' 600]
     (requests (checkAndUpdate
        (sampleEnv (\<lambda>log. ''5.6.7.8'')
           (storeAfter [arecord ''r2'' ''9.9.9.9'' 120, arecord ''r1'' ''1.2.3.4'' 600]))
        sampleConfig NewIPChecker (startState ''1.2.3.4''))) =
     [arecord ''r2'' ''5.6.7.8'' 120, arecord ''r1'' ''1.2.3.4'' 600]"
proof -
  let ?recs = "storeAfter [arecord ''r2'' ''9.9.9.9'' 120, arecord ''r1'' ''1.2.3.4'' 600]"
  let ?S = "startState ''1.2.3.4''"
  note h1 = sample_steady(1)[OF readIP_5678, of ?recs "''1.2.3.4''"]
  note h3 = sample_steady(2)[OF readIP_5678, of ?recs "''1.2.3.4''"]
  have h2: "''5.6.7.8'' \<noteq> currentIP ?S" by (simp add: startState_def)
  have run: "requests (checkAndUpdate (sampleEnv (\<lambda>log. ''5.6.7.8'') ?recs)
        sampleConfig NewIPChecker ?S) =
      [listRequest ''zone'' ''host.example.com'', listRequest ''zone'' ''host.example.com'',
       listRequest ''zone'' ''host.example.com'',
       updateRequest ''zone'' ''r2''
        (DNSRecordUpdateRequest ''A'' ''host.example.com'' ''5.6.7.8'' 120),
       listRequest ''zone'' ''host.example.com'']"
    apply (subst cycle_confirmed(1)[OF h1 h2 h3])
    by (simp add: sample_list sample_ListDNSRecords sample_update config_simps storeAfter_def
        startState_sel arecord_def applyChange_def updateLoop.simps[of _ _ _ _ _ 0] maxRetries_def
        UpdateOrCreateDNSRecord_def UpdateDNSRecord_def applyRequest_def listRequest_def
        Let_def)
  show ?thesis
    unfolding run
    by (simp add: storeAfter_def applyRequest_def listRequest_def updateRequest_def
        arecord_def)
qed

subsection \<open>The claims about the client\<close>

text \<open>
  C7. When \<open>UpdateDNSRecord\<close> sends its PUT (the listing succeeded, a record of the
  type exists and its content differs from the requested one) and the reply has status
  200, decodes, and has \<open>success\<close> true, the call returns an error exactly when the
  content echoed in the reply differs from the requested content.
\<close>

theorem update_read_back:
  assumes "ListDNSRecords e zoneID recordName st = (Inr records, st')"
    and "find (\<lambda>r. Type r = recordType) records = Some target"
    and "Content target \<noteq> content"
    and "apiUpdate e (requests st')
           (updateRequest zoneID (ID target)
              (DNSRecordUpdateRequest recordType recordName content (TTL target))) =
         Response 200 txt (Inr resp)"
    and "Success resp"
  shows "requests (snd (UpdateDNSRecord e zoneID recordName recordType content st)) =
           requests st' @ [updateRequest zoneID (ID target)
              (DNSRecordUpdateRequest recordType recordName content (TTL target))] \<and>
         fst (UpdateDNSRecord e zoneID recordName recordType content st) =
           (if resContent (Result resp) \<noteq> content
            then Some (ContentMismatch content (resContent (Result resp))) else None) \<and>
         (fst (UpdateDNSRecord e zoneID recordName recordType content st) \<noteq> None) =
           (resContent (Result resp) \<noteq> content)"
proof -
  from assms(2) have "records \<noteq> []" by auto
  with assms show ?thesis
    by (simp add: UpdateDNSRecord_def checked_def Let_def)
qed

text \<open>A provider that acknowledges the write and echoes the old content 1.2.3.4.\<close>

theorem update_read_back_witness:
  "fst (UpdateDNSRecord
     ((sampleEnv (\<lambda>log. ''5.6.7.8'') (\<lambda>h. [arecord ''r1'' ''1.2.3.4'' 600]))
        \<lparr>apiUpdate := \<lambda>h r. Response 200 []
            (Inr \<lparr>Success = True,
                  Result = UpdateResult ''r1'' ''A'' ''host.example.com'' ''1.2.3.4'',
                  Errors = []\<rparr>)\<rparr>)
     ''zone'' ''host.example.com'' ''A'' ''5.6.7.8'' (startState ''1.2.3.4'')) =
   Some (ContentMismatch ''5.6.7.8'' ''1.2.3.4'')"
proof -
  let ?E = "(sampleEnv (\<lambda>log. ''5.6.7.8'') (\<lambda>h. [arecord ''r1'' ''1.2.3.4'' 600]))
        \<lparr>apiUpdate := \<lambda>h r. Response 200 []
            (Inr \<lparr>Success = True,
                  Result = UpdateResult ''r1'' ''A'' ''host.example.com'' ''1.2.3.4'',
                  Errors = []\<rparr>)\<rparr>"
  let ?S = "startState ''1.2.3.4''"
  let ?t = "arecord ''r1'' ''1.2.3.4'' 600"
  have h1: "ListDNSRecords ?E ''zone'' ''host.example.com'' ?S =
      (Inr [?t], sent (listRequest ''zone'' ''host.example.com'') ?S)"
    by (simp add: ListDNSRecords_def sampleEnv_def okList_def checked_def)
  have h2: "find (\<lambda>r. Type r = ''A'') [?t] = Some ?t" by (simp add: arecord_def)
  have h3: "Content ?t \<noteq> ''5.6.7.8''" by (simp add: arecord_def)
  have h4: "apiUpdate ?E (requests (sent (listRequest ''zone'' ''host.example.com'') ?S))
           (updateRequest ''zone'' (ID ?t)
              (DNSRecordUpdateRequest ''A'' ''host.example.com'' ''5.6.7.8'' (TTL ?t))) =
         Response 200 [] (Inr \<lparr>Success = True,
                  Result = UpdateResult ''r1'' ''A'' ''host.example.com'' ''1.2.3.4'',
                  Errors = []\<rparr>)"
    by simp
  have h5: "Success \<lparr>Success = True,
                  Result = UpdateResult ''r1'' ''A'' ''host.example.com'' ''1.2.3.4'',
                  Errors = []\<rparr>" by simp
  from update_read_back[OF h1 h2 h3 h4 h5] show ?thesis by simp
qed

subsection \<open>The order of the queries\<close>

text \<open>
  \<open>GetPublicIPWithService\<close> queries the primary service first. If its answer is
  accepted, that address is returned and no other service is queried. Otherwise the
  remaining services (those of the list other than the primary) are queried in list
  order and the first accepted answer is returned, with the service it came from; if
  none is accepted, the call fails with an error that carries the error of the last
  service queried.
\<close>

lemma resolver_order:
  assumes "P = primaryService ic"
    and "rest = filter (\<lambda>s. s \<noteq> P) (services ic)"
  shows "(\<forall>ip. readIP (httpGet e (queries st) P) = Inr ip \<longrightarrow>
            GetPublicIPWithService e ic st =
              (Inr (ip, P), st\<lparr>queries := queries st @ [P]\<rparr>)) \<and>
         (\<forall>k ip. (\<exists>er. readIP (httpGet e (queries st) P) = Inl er) \<longrightarrow>
            k < length rest \<longrightarrow>
            (\<forall>j<k. \<exists>er. readIP (httpGet e (queries st @ P # take j rest) (rest ! j)) = Inl er) \<longrightarrow>
            readIP (httpGet e (queries st @ P # take k rest) (rest ! k)) = Inr ip \<longrightarrow>
            GetPublicIPWithService e ic st =
              (Inr (ip, rest ! k), st\<lparr>queries := queries st @ P # take (Suc k) rest\<rparr>)) \<and>
         ((\<exists>er. readIP (httpGet e (queries st) P) = Inl er) \<longrightarrow>
            rest \<noteq> [] \<longrightarrow>
            (\<forall>j<length rest. \<exists>er. readIP (httpGet e (queries st @ P # take j rest) (rest ! j)) = Inl er) \<longrightarrow>
            (\<exists>er. readIP (httpGet e (queries st @ P # butlast rest) (last rest)) = Inl er \<and>
              GetPublicIPWithService e ic st =
                (Inl (AllServicesFailed (Some er)), st\<lparr>queries := queries st @ P # rest\<rparr>)))"
proof -
  let ?st = "st\<lparr>queries := queries st @ [P]\<rparr>"
  have prest: "P \<notin> set rest" using assms(2) by simp
  have tb: "tryBackups e ic s =
      (case tryServices e P rest None s of
        (Inr r, st') \<Rightarrow> (Inr r, st')
      | (Inl lastErr, st') \<Rightarrow> (Inl (AllServicesFailed lastErr), st'))" for s
    using tryServices_filter[of e P "services ic" None s] assms
    by (simp add: tryBackups_def)
  have fallback: "GetPublicIPWithService e ic st = tryBackups e ic ?st"
    if "readIP (httpGet e (queries st) P) = Inl er" for er
    using that assms(1) by (simp add: GetPublicIPWithService_def getIPFromService_def)
  have one: "GetPublicIPWithService e ic st = (Inr (ip, P), ?st)"
    if r: "readIP (httpGet e (queries st) P) = Inr ip" for ip
    using readIP_Inr[OF r] r assms(1) by (simp add: GetPublicIPWithService_def getIPFromService_def)
  have two: "GetPublicIPWithService e ic st =
              (Inr (ip, rest ! k), st\<lparr>queries := queries st @ P # take (Suc k) rest\<rparr>)"
    if f: "readIP (httpGet e (queries st) P) = Inl er" and k: "k < length rest"
      and a: "\<forall>j<k. \<exists>er. readIP (httpGet e (queries st @ P # take j rest) (rest ! j)) = Inl er"
      and b: "readIP (httpGet e (queries st @ P # take k rest) (rest ! k)) = Inr ip"
    for er k ip
  proof -
    have "tryServices e P rest None ?st =
            (Inr (ip, rest ! k), ?st\<lparr>queries := queries ?st @ take (Suc k) rest\<rparr>)"
      using a b by (intro tryServices_success[OF prest k]) simp_all
    then show ?thesis using fallback[OF f] tb[of ?st] by simp
  qed
  have three: "\<exists>er. readIP (httpGet e (queries st @ P # butlast rest) (last rest)) = Inl er \<and>
              GetPublicIPWithService e ic st =
                (Inl (AllServicesFailed (Some er)), st\<lparr>queries := queries st @ P # rest\<rparr>)"
    if f: "readIP (httpGet e (queries st) P) = Inl er0" and ne: "rest \<noteq> []"
      and a: "\<forall>j<length rest. \<exists>er. readIP (httpGet e (queries st @ P # take j rest) (rest ! j)) = Inl er"
    for er0
  proof -
    have t: "tryServices e P rest None ?st =
            (Inl (if rest = [] then None
                 else errorOf (readIP (httpGet e (queries ?st @ butlast rest) (last rest)))),
             ?st\<lparr>queries := queries ?st @ rest\<rparr>)"
      using a by (intro tryServices_fail[OF prest]) simp
    have "length rest - 1 < length rest" using ne by simp
    with a obtain er where
      "readIP (httpGet e (queries st @ P # take (length rest - 1) rest) (rest ! (length rest - 1))) = Inl er"
      by blast
    then have l: "readIP (httpGet e (queries st @ P # butlast rest) (last rest)) = Inl er"
      using ne by (simp add: butlast_conv_take last_conv_nth)
    with t ne fallback[OF f] tb[of ?st] show ?thesis by (simp add: errorOf_def)
  qed
  from one two three show ?thesis by blast
qed

text \<open>
  Three runs with the services of \<open>NewIPChecker\<close>: the primary answers; only the
  second backup answers; every service fails, with status 500 plus the number of
  queries made before.
\<close>

lemma resolver_order_runs:
  "GetPublicIPWithService (sampleEnv (\<lambda>log. ''1.2.3.4'') (\<lambda>h. [])) NewIPChecker (startState []) =
     (Inr (''1.2.3.4'', ''https://api.ipify.org''),
      (startState [])\<lparr>queries := [''https://api.ipify.org'']\<rparr>) \<and>
   GetPublicIPWithService
     ((sampleEnv (\<lambda>log. []) (\<lambda>h. []))
        \<lparr>httpGet := \<lambda>log url. if url = ''https://icanhazip.com'' then okGet ''1.2.3.4''
                              else GetResponse 503 (Inr [])\<rparr>)
     NewIPChecker (startState []) =
     (Inr (''1.2.3.4'', ''https://icanhazip.com''),
      (startState [])\<lparr>queries := [''https://api.ipify.org'', ''https://ifconfig.me/ip'',
                                   ''https://icanhazip.com'']\<rparr>) \<and>
   GetPublicIPWithService
     ((sampleEnv (\<lambda>log. []) (\<lambda>h. []))
        \<lparr>httpGet := \<lambda>log url. GetResponse (500 + int (length log)) (Inr [])\<rparr>)
     NewIPChecker (startState []) =
     (Inl (AllServicesFailed (Some (ServiceStatus 503))),
      (startState [])\<lparr>queries := [''https://api.ipify.org'', ''https://ifconfig.me/ip'',
                                   ''https://icanhazip.com'', ''https://api.ip.sb/ip'']\<rparr>)"
proof -
  let ?P = "''https://api.ipify.org''"
  let ?rest = "[''https://ifconfig.me/ip'', ''https://icanhazip.com'', ''https://api.ip.sb/ip'']"
  let ?S = "startState []"
  let ?E1 = "sampleEnv (\<lambda>log. ''1.2.3.4'') (\<lambda>h. [])"
  let ?E2 = "(sampleEnv (\<lambda>log. []) (\<lambda>h. []))
        \<lparr>httpGet := \<lambda>log url. if url = ''https://icanhazip.com'' then okGet ''1.2.3.4''
                              else GetResponse 503 (Inr [])\<rparr>"
  let ?E3 = "(sampleEnv (\<lambda>log. []) (\<lambda>h. []))
        \<lparr>httpGet := \<lambda>log url. GetResponse (500 + int (length log)) (Inr [])\<rparr>"
  have hP: "?P = primaryService NewIPChecker" by (simp add: NewIPChecker_def)
  have hR: "?rest = filter (\<lambda>s. s \<noteq> ?P) (services NewIPChecker)"
    by (simp add: backups_of_NewIPChecker)
  have a1: "readIP (httpGet ?E1 (queries ?S) ?P) = Inr ''1.2.3.4''"
    by (simp add: sampleEnv_def readIP_1234)
  have one: "GetPublicIPWithService ?E1 NewIPChecker ?S =
      (Inr (''1.2.3.4'', ?P), ?S\<lparr>queries := queries ?S @ [?P]\<rparr>)"
    using resolver_order[OF hP hR, of ?E1 ?S, THEN conjunct1, rule_format, OF a1] .
  have b0: "\<exists>er. readIP (httpGet ?E2 (queries ?S) ?P) = Inl er"
    by (simp add: readIP_status)
  have b1: "(1::nat) < length ?rest" by simp
  have b2: "\<exists>er. readIP (httpGet ?E2 (queries ?S @ ?P # take j ?rest) (?rest ! j)) = Inl er"
    if "j < 1" for j
    using that by (simp add: readIP_status)
  have b3: "readIP (httpGet ?E2 (queries ?S @ ?P # take 1 ?rest) (?rest ! 1)) = Inr ''1.2.3.4''"
    by (simp add: readIP_1234)
  have two: "GetPublicIPWithService ?E2 NewIPChecker ?S =
      (Inr (''1.2.3.4'', ?rest ! 1), ?S\<lparr>queries := queries ?S @ ?P # take (Suc 1) ?rest\<rparr>)"
    using resolver_order[OF hP hR, of ?E2 ?S, THEN conjunct2, THEN conjunct1, rule_format,
        OF b0 b1 b2 b3] .
  have c0: "\<exists>er. readIP (httpGet ?E3 (queries ?S) ?P) = Inl er"
    by (simp add: readIP_status)
  have c1: "?rest \<noteq> []" by simp
  have c2: "\<exists>er. readIP (httpGet ?E3 (queries ?S @ ?P # take j ?rest) (?rest ! j)) = Inl er"
    if "j < length ?rest" for j
    by (simp add: readIP_status)
  from resolver_order[OF hP hR, of ?E3 ?S, THEN conjunct2, THEN conjunct2, rule_format,
        OF c0 c1 c2]
  obtain er where c3: "readIP (httpGet ?E3 (queries ?S @ ?P # butlast ?rest) (last ?rest)) = Inl er"
    and c4: "GetPublicIPWithService ?E3 NewIPChecker ?S =
      (Inl (AllServicesFailed (Some er)), ?S\<lparr>queries := queries ?S @ ?P # ?rest\<rparr>)"
    by blast
  from c3 have "er = ServiceStatus 503" by (simp add: readIP_status startState_sel)
  with c4 have three: "GetPublicIPWithService ?E3 NewIPChecker ?S =
      (Inl (AllServicesFailed (Some (ServiceStatus 503))), ?S\<lparr>queries := queries ?S @ ?P # ?rest\<rparr>)"
    by simp
  from one two three show ?thesis by (simp add: startState_sel)
qed

subsection \<open>The claims about discovery\<close>

text \<open>
  C5. The claim says that the first syntactically valid IPv4 answer is returned. The
  order of the queries is as claimed, but the answer that stops the search is the first
  one \<open>readIP\<close> accepts, and that includes IPv4-mapped IPv6 literals. With the
  services of \<open>NewIPChecker\<close>, the primary answering status 503, the first backup
  answering \<open>::ffff:1.2.3.4\<close> and the second backup answering 5.6.7.8, the call
  returns the IPv6 literal of the first backup and never queries the second one,
  although \<open>::ffff:1.2.3.4\<close> is no dotted quad and 5.6.7.8 is one.
\<close>

theorem mapped_literal_preempts_valid_answer:
  "parseIPv4Fields ''::ffff:1.2.3.4'' = None \<and>
   parseIPv4Fields ''5.6.7.8'' = Some [5, 6, 7, 8] \<and>
   readIP (okGet ''5.6.7.8'') = Inr ''5.6.7.8'' \<and>
   GetPublicIPWithService
     ((sampleEnv (\<lambda>log. []) (\<lambda>h. []))
        \<lparr>httpGet := \<lambda>log url.
           if url = ''https://ifconfig.me/ip'' then okGet ''::ffff:1.2.3.4''
           else if url = ''https://icanhazip.com'' then okGet ''5.6.7.8''
           else GetResponse 503 (Inr [])\<rparr>)
     NewIPChecker (startState []) =
     (Inr (''::ffff:1.2.3.4'', ''https://ifconfig.me/ip''),
      (startState [])\<lparr>queries := [''https://api.ipify.org'', ''https://ifconfig.me/ip'']\<rparr>)"
proof -
  let ?P = "''https://api.ipify.org''"
  let ?rest = "[''https://ifconfig.me/ip'', ''https://icanhazip.com'', ''https://api.ip.sb/ip'']"
  let ?S = "startState []"
  let ?E = "(sampleEnv (\<lambda>log. []) (\<lambda>h. []))
        \<lparr>httpGet := \<lambda>log url.
           if url = ''https://ifconfig.me/ip'' then okGet ''::ffff:1.2.3.4''
           else if url = ''https://icanhazip.com'' then okGet ''5.6.7.8''
           else GetResponse 503 (Inr [])\<rparr>"
  have p1: "parseIPv4Fields ''::ffff:1.2.3.4'' = None"
    by (simp add: parseIPv4Fields_def isDigit_def)
  have p2: "parseIPv4Fields ''5.6.7.8'' = Some [5, 6, 7, 8]"
    by (simp add: parseIPv4Fields_def isDigit_def Let_def)
  have hP: "?P = primaryService NewIPChecker" by (simp add: NewIPChecker_def)
  have hR: "?rest = filter (\<lambda>s. s \<noteq> ?P) (services NewIPChecker)"
    by (simp add: backups_of_NewIPChecker)
  have b0: "\<exists>er. readIP (httpGet ?E (queries ?S) ?P) = Inl er"
    by (simp add: readIP_status)
  have b1: "(0::nat) < length ?rest" by simp
  have b2: "\<exists>er. readIP (httpGet ?E (queries ?S @ ?P # take j ?rest) (?rest ! j)) = Inl er"
    if "j < 0" for j
    using that by simp
  have b3: "readIP (httpGet ?E (queries ?S @ ?P # take 0 ?rest) (?rest ! 0)) = Inr ''::ffff:1.2.3.4''"
    by (simp add: readIP_mapped)
  have "GetPublicIPWithService ?E NewIPChecker ?S =
      (Inr (''::ffff:1.2.3.4'', ?rest ! 0), ?S\<lparr>queries := queries ?S @ ?P # take (Suc 0) ?rest\<rparr>)"
    using resolver_order[OF hP hR, of ?E ?S, THEN conjunct2, THEN conjunct1, rule_format,
        OF b0 b1 b2 b3] .
  with p1 p2 readIP_5678 show ?thesis by (simp add: startState_sel)
qed

text \<open>
  C6. The claim says that an IPv6 literal is never accepted. \<open>isValidIPv4\<close> accepts
  whatever \<^verbatim>\<open>net.ParseIP\<close> parses and \<^verbatim>\<open>To4\<close> converts. That excludes the
  address 2001:db8::1 and text that is no address, and includes the IPv4-mapped IPv6
  literals: the body \<open>::ffff:1.2.3.4\<close> is accepted and returned as the public
  address.
\<close>

theorem mapped_ipv6_accepted:
  "\<not> isValidIPv4 ''2001:db8::1'' \<and>
   \<not> isValidIPv4 ''not an address'' \<and>
   isValidIPv4 ''::ffff:1.2.3.4'' \<and>
   readIP (GetResponse 200 (Inr ''::ffff:1.2.3.4'')) = Inr ''::ffff:1.2.3.4'' \<and>
   fst (GetPublicIPWithService (sampleEnv (\<lambda>log. ''::ffff:1.2.3.4'') (\<lambda>h. [])) NewIPChecker
          (startState [])) = Inr (''::ffff:1.2.3.4'', ''https://api.ipify.org'')"
proof -
  have v: "isValidIPv4 ''::ffff:1.2.3.4''" by (simp add: ip_eval)
  have r: "readIP (GetResponse 200 (Inr ''::ffff:1.2.3.4'')) = Inr ''::ffff:1.2.3.4''"
    using readIP_mapped by (simp add: okGet_def)
  have g: "GetPublicIPWithService (sampleEnv (\<lambda>log. ''::ffff:1.2.3.4'') (\<lambda>h. [])) NewIPChecker
          (startState []) =
        (Inr (''::ffff:1.2.3.4'', ''https://api.ipify.org''),
         (startState [])\<lparr>queries := queries (startState []) @ [''https://api.ipify.org'']\<rparr>)"
    by (rule sample_observe) (simp add: readIP_mapped)
  have n1: "\<not> isValidIPv4 ''2001:db8::1''" by (simp add: ip_eval)
  have n2: "\<not> isValidIPv4 ''not an address''" by (simp add: ip_eval)
  from n1 n2 v r g show ?thesis by simp
qed

end
